theory Spec2Isabelle
  imports Complex_Main "HOL-Library.Sublist"
begin

section \<open>Rule accessors of AcademicNLPQuantizer\<close>

text \<open>
  Source: \<^verbatim>\<open>mqbench/custom_quantizer/nlp_quantizer.py\<close>. The operator kinds and the
  layer kinds the rules name are Python objects; the two the class itself names get a
  constructor of their own, any other one is identified by its qualified name.
\<close>

datatype function_type = torch_matmul | other_function string

datatype module_type = qat_Linear | other_module string

text \<open>
  The two attributes the accessors read are set by the base class \<^verbatim>\<open>ModelQuantizer\<close>;
  an instance is the record of them. \<^verbatim>\<open>additional_function_type\<close> is a Python list,
  \<^verbatim>\<open>additional_module_type\<close> a tuple: both are ordered and keep duplicates.
\<close>

record AcademicNLPQuantizer =
  additional_function_type :: "function_type list"
  additional_module_type :: "module_type list"

definition function_type_to_quant_input :: "AcademicNLPQuantizer \<Rightarrow> function_type list" where
  "function_type_to_quant_input self = [torch_matmul] @ additional_function_type self"

definition module_type_to_quant_input :: "AcademicNLPQuantizer \<Rightarrow> module_type list" where
  "module_type_to_quant_input self = [qat_Linear] @ additional_module_type self"

section \<open>Python strings, paths and dictionaries\<close>

text \<open>The exceptions the embedded code can raise.\<close>

datatype py_error = IndexError | KeyError | TypeError | AttributeError | FileExistsError
  | FileNotFoundError | NotADirectoryError | IsADirectoryError | SameFileError
  | JSONDecodeError | UnpicklingError | RuntimeError

text \<open>
  \<^verbatim>\<open>sub in s\<close> on strings: \<open>sub\<close> occurs in \<open>s\<close> at some position.
\<close>

fun str_contains :: "string \<Rightarrow> string \<Rightarrow> bool" where
  "str_contains sub [] = (sub = [])"
| "str_contains sub (c # cs) = (prefix sub (c # cs) \<or> str_contains sub cs)"

text \<open>
  \<^verbatim>\<open>s.replace(old, new)\<close>: every occurrence of \<open>old\<close>, found from the left and not
  overlapping an earlier one, is replaced; an empty \<open>old\<close> matches before every character
  and at the end.
\<close>

fun str_replace :: "string \<Rightarrow> string \<Rightarrow> string \<Rightarrow> string" where
  "str_replace [] old new = (if old = [] then new else [])"
| "str_replace (c # cs) old new =
     (if old = [] then new @ c # str_replace cs old new
      else if prefix old (c # cs) then new @ str_replace (drop (length old - 1) cs) old new
      else c # str_replace cs old new)"

text \<open>\<^verbatim>\<open>os.path.join(a, b)\<close> of \<^verbatim>\<open>posixpath\<close>, for two components.\<close>

definition os_path_join :: "string \<Rightarrow> string \<Rightarrow> string" where
  "os_path_join a b =
     (if prefix ''/'' b then b
      else if a = [] \<or> last a = CHR ''/'' then a @ b
      else a @ ''/'' @ b)"

text \<open>
  A Python dictionary keeps its keys in insertion order: an association list with
  distinct keys. \<^verbatim>\<open>d[k]\<close> and \<^verbatim>\<open>d.pop(k)\<close> raise \<^verbatim>\<open>KeyError\<close> on a missing key;
  \<^verbatim>\<open>d[k] = v\<close> overwrites the value of a present key where it stands and appends a new
  key at the end.
\<close>

type_synonym 'v dict = "(string \<times> 'v) list"

definition dict_get :: "'v dict \<Rightarrow> string \<Rightarrow> py_error + 'v" where
  "dict_get d k = (case map_of d k of None \<Rightarrow> Inl KeyError | Some v \<Rightarrow> Inr v)"

definition dict_pop :: "'v dict \<Rightarrow> string \<Rightarrow> py_error + ('v \<times> 'v dict)" where
  "dict_pop d k =
     (case map_of d k of None \<Rightarrow> Inl KeyError
      | Some v \<Rightarrow> Inr (v, filter (\<lambda>kv. fst kv \<noteq> k) d))"

definition dict_set :: "'v dict \<Rightarrow> string \<Rightarrow> 'v \<Rightarrow> 'v dict" where
  "dict_set d k v =
     (if k \<in> set (map fst d) then map (\<lambda>kv. if fst kv = k then (k, v) else kv) d
      else d @ [(k, v)])"

section \<open>Resuming: the key renaming before \<^verbatim>\<open>load_state_dict\<close>\<close>

text \<open>
  Source: \<^verbatim>\<open>main_worker\<close>, lines 283 to 289. The loop runs over a snapshot of the keys
  and renames in the dictionary itself: \<^verbatim>\<open>state_dict[k[7:]] = state_dict.pop(k)\<close> pops
  first and assigns second. \<^verbatim>\<open>state_dict\<close> is the very object \<^verbatim>\<open>checkpoint['state_dict']\<close>,
  so the renamed dictionary is the one loaded.
\<close>

fun rename_keys :: "string list \<Rightarrow> 'v dict \<Rightarrow> py_error + 'v dict" where
  "rename_keys [] state_dict = Inr state_dict"
| "rename_keys (k # ks) state_dict =
     (case dict_pop state_dict k of
        Inl e \<Rightarrow> Inl e
      | Inr (v, popped) \<Rightarrow> rename_keys ks (dict_set popped (drop 7 k) v))"

text \<open>
  The dictionary handed to \<^verbatim>\<open>model.load_state_dict\<close>. \<^verbatim>\<open>list(d.keys())[0]\<close> raises
  \<^verbatim>\<open>IndexError\<close> on an empty dictionary, and \<^verbatim>\<open>and\<close> evaluates its second operand only
  when the first is true.
\<close>

definition resume_state_dict :: "'v dict \<Rightarrow> 'w dict \<Rightarrow> py_error + 'v dict" where
  "resume_state_dict state_dict model_dict =
     (case state_dict of
        [] \<Rightarrow> Inl IndexError
      | first # _ \<Rightarrow>
          if str_contains ''module.'' (fst first) then
            (case model_dict of
               [] \<Rightarrow> Inl IndexError
             | mfirst # _ \<Rightarrow>
                 if \<not> str_contains ''module.'' (fst mfirst)
                 then rename_keys (map fst state_dict) state_dict
                 else Inr state_dict)
          else Inr state_dict)"

text \<open>
  The renaming of a snapshot of keys is free of clashes when no shortened key equals a
  key that is still to be renamed or another shortened key.
\<close>

fun clash_free :: "string list \<Rightarrow> bool" where
  "clash_free [] = True"
| "clash_free (k # ks) =
     (drop 7 k \<notin> set ks \<and> drop 7 k \<notin> set (map (drop 7) ks) \<and> clash_free ks)"

section \<open>Files and checkpoints\<close>

text \<open>
  The values a checkpoint dictionary holds: integers, strings, Python floats, one-element
  tensors, a state dict (parameter name to value) and any other object (an optimizer
  state and the like), identified by a number. The number a float or a tensor carries
  only tells values apart: no arithmetic is done on it here.
\<close>

datatype pyval = PyInt int | PyStr string | PyFloat real | PyTensor real
  | PyStateDict "real dict" | PyObject nat

text \<open>
  A serialized graph of the external compiler is opaque. A clip-range record maps a node
  identifier to its minimum and maximum.
\<close>

datatype sgraph = SGraph nat

type_synonym clip_ranges = "(string \<times> real \<times> real) list"

datatype fcontent = PthFile "pyval dict" | SgFile sgraph | JsonFile clip_ranges

text \<open>
  The file system: the directories and the files, each under the path it was created
  with (relative to the working directory, without a trailing separator and without
  \<^verbatim>\<open>.\<close> and \<^verbatim>\<open>..\<close> components).
\<close>

record fs =
  dirs :: "string set"
  files :: "string \<rightharpoonup> fcontent"

text \<open>\<^verbatim>\<open>p.rstrip('/')\<close> and \<^verbatim>\<open>os.path.dirname(p)\<close> of \<^verbatim>\<open>posixpath\<close>.\<close>

definition rstrip_sep :: "string \<Rightarrow> string" where
  "rstrip_sep p = rev (dropWhile (\<lambda>c. c = CHR ''/'') (rev p))"

definition os_path_dirname :: "string \<Rightarrow> string" where
  "os_path_dirname p =
     (let head = rev (dropWhile (\<lambda>c. c \<noteq> CHR ''/'') (rev p))
      in if head \<noteq> [] \<and> \<not> list_all (\<lambda>c. c = CHR ''/'') head then rstrip_sep head else head)"

text \<open>
  The directory an entry is created in exists: it is the working directory, the root or
  a directory of the file system.
\<close>

definition parent_exists :: "fs \<Rightarrow> string \<Rightarrow> bool" where
  "parent_exists f p =
     (let d = os_path_dirname (rstrip_sep p)
      in d = [] \<or> list_all (\<lambda>c. c = CHR ''/'') d \<or> d \<in> dirs f)"

definition os_path_isdir :: "fs \<Rightarrow> string \<Rightarrow> bool" where
  "os_path_isdir f p = (p \<noteq> [] \<and> (rstrip_sep p = [] \<or> rstrip_sep p \<in> dirs f))"

text \<open>
  \<^verbatim>\<open>os.mkdir(p)\<close> raises \<^verbatim>\<open>FileNotFoundError\<close> on the empty path and on a path whose parent
  directory is missing, \<^verbatim>\<open>NotADirectoryError\<close> when the parent is a file, and
  \<^verbatim>\<open>FileExistsError\<close> when something stands at the path.
\<close>

definition os_mkdir :: "fs \<Rightarrow> string \<Rightarrow> py_error + fs" where
  "os_mkdir f p =
     (let q = rstrip_sep p
      in if p = [] then Inl FileNotFoundError
         else if q = [] then Inl FileExistsError
         else if \<not> parent_exists f q then
           (if os_path_dirname q \<in> dom (files f) then Inl NotADirectoryError
            else Inl FileNotFoundError)
         else if q \<in> dirs f \<or> q \<in> dom (files f) then Inl FileExistsError
         else Inr (f\<lparr>dirs := insert q (dirs f)\<rparr>))"

definition write_file :: "fs \<Rightarrow> string \<Rightarrow> fcontent \<Rightarrow> fs" where
  "write_file f p c = f\<lparr>files := (files f)(p \<mapsto> c)\<rparr>"

text \<open>
  Opening a path for writing and writing the content: the path must not be empty or
  name a directory, and its parent directory must exist.
\<close>

definition open_write :: "fs \<Rightarrow> string \<Rightarrow> fcontent \<Rightarrow> py_error + fs" where
  "open_write f p c =
     (if p = [] then Inl FileNotFoundError
      else if rstrip_sep p \<noteq> p \<or> p \<in> dirs f then Inl IsADirectoryError
      else if \<not> parent_exists f p then Inl FileNotFoundError
      else Inr (write_file f p c))"

definition torch_save :: "fs \<Rightarrow> pyval dict \<Rightarrow> string \<Rightarrow> py_error + fs" where
  "torch_save f obj p = open_write f p (PthFile obj)"

definition shutil_copyfile :: "fs \<Rightarrow> string \<Rightarrow> string \<Rightarrow> py_error + fs" where
  "shutil_copyfile f src dst =
     (if src = dst then Inl SameFileError
      else case files f src of
             None \<Rightarrow> Inl FileNotFoundError
           | Some c \<Rightarrow> open_write f dst c)"

text \<open>
  What \<^verbatim>\<open>save_checkpoint\<close> needs of Python's numbers is a parameter: \<open>render_2f\<close> is the
  conversion \<^verbatim>\<open>{:.2f}\<close> of \<^verbatim>\<open>str.format\<close> (it raises on a value that is no number),
  \<open>render\<close> the conversion \<^verbatim>\<open>{}\<close> of a number, and \<open>minus_one\<close> the subtraction \<^verbatim>\<open>x - 1\<close>
  on a float or a tensor. On an integer the subtraction is exact.
\<close>

record number_ops =
  render_2f :: "pyval \<Rightarrow> py_error + string"
  render :: "pyval \<Rightarrow> string"
  minus_one :: "real \<Rightarrow> real"

text \<open>\<^verbatim>\<open>state['epoch'] - 1\<close>: subtraction is defined on numbers only.\<close>

definition py_sub1 :: "number_ops \<Rightarrow> pyval \<Rightarrow> py_error + pyval" where
  "py_sub1 ops v =
     (case v of PyInt i \<Rightarrow> Inr (PyInt (i - 1))
      | PyFloat x \<Rightarrow> Inr (PyFloat (minus_one ops x))
      | PyTensor x \<Rightarrow> Inr (PyTensor (minus_one ops x))
      | _ \<Rightarrow> Inl TypeError)"

text \<open>
  Source: \<^verbatim>\<open>save_checkpoint\<close>. \<open>state\<close> is the caller's dictionary, changed in place, so
  the function returns it together with the file system, also when it raises.
\<close>

definition save_checkpoint ::
  "number_ops \<Rightarrow> pyval dict \<Rightarrow> bool \<Rightarrow> fs \<Rightarrow> (py_error + unit) \<times> pyval dict \<times> fs" where
  "save_checkpoint ops state is_best f =
     (case dict_get state ''arch'' of
        Inl e \<Rightarrow> (Inl e, state, f)
      | Inr (PyStr model_name) \<Rightarrow>
          (case (if \<not> os_path_isdir f model_name then os_mkdir f model_name else Inr f) of
             Inl e \<Rightarrow> (Inl e, state, f)
           | Inr f1 \<Rightarrow>
          (case dict_pop state ''cur_acc'' of
             Inl e \<Rightarrow> (Inl e, state, f1)
           | Inr (cur_acc, state1) \<Rightarrow>
          (case dict_get state1 ''epoch'' of
             Inl e \<Rightarrow> (Inl e, state1, f1)
           | Inr epoch \<Rightarrow>
          (case py_sub1 ops epoch of
             Inl e \<Rightarrow> (Inl e, state1, f1)
           | Inr cur_epoch \<Rightarrow>
          (case render_2f ops cur_acc of
             Inl e \<Rightarrow> (Inl e, state1, f1)
           | Inr acc_2f \<Rightarrow>
              (let filename = os_path_join model_name
                     (model_name @ ''_acc_'' @ acc_2f @ ''_epoch_'' @ render ops cur_epoch
                        @ ''.pth.tar'')
               in case torch_save f1 state1 filename of
                    Inl e \<Rightarrow> (Inl e, state1, f1)
                  | Inr f2 \<Rightarrow>
                      if is_best then
                        (case shutil_copyfile f2 filename
                                (os_path_join model_name ''model_best.pth.tar'') of
                           Inl e \<Rightarrow> (Inl e, state1, f2)
                         | Inr f3 \<Rightarrow> (Inr (), state1, f3))
                      else (Inr (), state1, f2)))))))
      | Inr _ \<Rightarrow> (Inl TypeError, state, f))"

section \<open>The instrumented model and the mode controller\<close>

datatype fq_mode = disabled | calibrating | quantized

text \<open>
  A fake-quant node holds its mode and its accumulated statistics, of which the model
  keeps the number of batches observed.
\<close>

record fake_quant_node =
  mode :: fq_mode
  observed :: nat

record torch_model =
  training :: bool
  nodes :: "fake_quant_node list"
  merged_bn :: bool
  on_cpu :: bool
  params :: "real dict"

text \<open>
  Modelled from the spec: \<^verbatim>\<open>mqbench.utils.state\<close> (\<^verbatim>\<open>enable_calibration\<close>,
  \<^verbatim>\<open>enable_quantization\<close>, \<^verbatim>\<open>disable_all\<close>) is not among the sources. Section 4.4: a
  transition applies to all nodes of the graph at once; \<^verbatim>\<open>enable_quantization\<close> proceeds
  with the statistics as they are, also when no batch was observed.
\<close>

definition set_mode :: "fq_mode \<Rightarrow> torch_model \<Rightarrow> torch_model" where
  "set_mode md m = m\<lparr>nodes := map (\<lambda>n. n\<lparr>mode := md\<rparr>) (nodes m)\<rparr>"

definition enable_calibration :: "torch_model \<Rightarrow> torch_model" where
  "enable_calibration m = set_mode calibrating m"

definition enable_quantization :: "torch_model \<Rightarrow> torch_model" where
  "enable_quantization m = set_mode quantized m"

definition disable_all :: "torch_model \<Rightarrow> torch_model" where
  "disable_all m = set_mode disabled m"

text \<open>
  Modelled from the spec: the forward pass through the fake-quant nodes (section 4.4). A
  calibrating node records the batch; a disabled or quantized node records nothing.
\<close>

definition forward :: "torch_model \<Rightarrow> torch_model" where
  "forward m =
     m\<lparr>nodes := map (\<lambda>n. if mode n = calibrating then n\<lparr>observed := Suc (observed n)\<rparr> else n)
                   (nodes m)\<rparr>"

text \<open>\<^verbatim>\<open>model.eval()\<close> of PyTorch clears the training flag and returns the model.\<close>

definition model_eval :: "torch_model \<Rightarrow> torch_model" where
  "model_eval m = m\<lparr>training := False\<rparr>"

text \<open>
  Modelled from the spec: \<^verbatim>\<open>mqbench.convert_deploy.convert_merge_bn\<close> is not among the
  sources. Section 4.5: batch-norm parameters are folded into the preceding convolution;
  the step requires a model in evaluation mode that is not calibrating, which
  \<open>merge_bn_ready\<close> states.
\<close>

definition convert_merge_bn :: "torch_model \<Rightarrow> torch_model" where
  "convert_merge_bn m = m\<lparr>merged_bn := True\<rparr>"

definition merge_bn_ready :: "torch_model \<Rightarrow> bool" where
  "merge_bn_ready m = (\<not> training m \<and> list_all (\<lambda>n. mode n \<noteq> calibrating) (nodes m))"

text \<open>
  \<^verbatim>\<open>model.load_state_dict\<close> of PyTorch, strict: the keys must be those of the model, and
  each parameter takes the value stored under its name.
\<close>

definition load_state_dict :: "torch_model \<Rightarrow> real dict \<Rightarrow> py_error + torch_model" where
  "load_state_dict m sd =
     (if set (map fst sd) = set (map fst (params m))
      then Inr (m\<lparr>params := map (\<lambda>kv. case map_of sd (fst kv) of
                                            Some v \<Rightarrow> (fst kv, v) | None \<Rightarrow> kv) (params m)\<rparr>)
      else Inl RuntimeError)"

section \<open>The driver: resume or calibrate, quantize, deploy or evaluate\<close>

text \<open>
  Source: \<^verbatim>\<open>main_worker\<close>, lines 267 to 337, and \<^verbatim>\<open>calibrate\<close>. The driver's state is
  the model, the optimizer state, the two values read from a checkpoint, the file system
  and the log of the calls made on the model, each with the model it was given.
\<close>

datatype call = Call_enable_calibration | Call_calibrate nat
  | Call_enable_quantization torch_model | Call_convert_merge_bn torch_model
  | Call_load_state_dict "real dict" | Call_gen_sg torch_model | Call_validate nat

record world =
  model :: torch_model
  optimizer :: pyval
  start_epoch :: pyval
  best_acc1 :: pyval
  fsys :: fs
  calls :: "call list"

record args =
  arch :: string
  resume :: string
  gpu :: "nat option"
  quant :: bool
  deploy :: bool
  evaluate :: bool

text \<open>The two data loaders the stages use, each by its number of batches.\<close>

record loaders =
  cali_loader :: nat
  val_loader :: nat

text \<open>
  The external graph compiler \<^verbatim>\<open>rbcompiler.api_v2\<close> is a parameter. \<open>gen_sg_from_pytorch\<close>
  returns the graph and the clip ranges it writes to the \<^verbatim>\<open>clip_range_file\<close> it is given
  (\<open>None\<close> when it writes none); either function may raise.
\<close>

type_synonym qconfig_t = "(string \<times> (string \<times> (string \<times> bool) list) list) list"

record rb_api =
  gen_sg_from_pytorch :: "torch_model \<Rightarrow> py_error + (sgraph \<times> clip_ranges option)"
  gen_quant_sg_from_clip_ranges :: "sgraph \<Rightarrow> clip_ranges \<Rightarrow> qconfig_t \<Rightarrow> py_error + sgraph"

definition save_sg :: "fs \<Rightarrow> sgraph \<Rightarrow> string \<Rightarrow> fs" where
  "save_sg f sg p = write_file f p (SgFile sg)"

text \<open>\<^verbatim>\<open>json.loads(f.read())\<close> on the file opened at a path.\<close>

definition read_json :: "fs \<Rightarrow> string \<Rightarrow> py_error + clip_ranges" where
  "read_json f p =
     (case files f p of
        None \<Rightarrow> Inl FileNotFoundError
      | Some (JsonFile c) \<Rightarrow> Inr c
      | Some _ \<Rightarrow> Inl JSONDecodeError)"

definition qconfig :: qconfig_t where
  "qconfig = [(''quant_ops'', [(''DepthWiseConv2D'', [(''per_channel'', False)])])]"

text \<open>\<^verbatim>\<open>calibrate\<close>: evaluation mode, then one forward pass per calibration batch.\<close>

definition calibrate :: "nat \<Rightarrow> torch_model \<Rightarrow> torch_model" where
  "calibrate cali m = (forward ^^ cali) (model_eval m)"

text \<open>\<^verbatim>\<open>best_acc1.to(args.gpu)\<close>: only a tensor has the method.\<close>

definition tensor_to :: "pyval \<Rightarrow> py_error + pyval" where
  "tensor_to v = (case v of PyTensor t \<Rightarrow> Inr (PyTensor t) | _ \<Rightarrow> Inl AttributeError)"

text \<open>
  Lines 269 to 294: the checkpoint file exists, or a message is printed. The global
  \<^verbatim>\<open>best_acc1\<close> is assigned before \<^verbatim>\<open>.to\<close> is called on it. \<^verbatim>\<open>map_location\<close> moves the
  loaded tensors and does not change what is loaded.
\<close>

definition load_checkpoint :: "args \<Rightarrow> world \<Rightarrow> (py_error + unit) \<times> world" where
  "load_checkpoint a w =
     (case files (fsys w) (resume a) of
        None \<Rightarrow> (Inr (), w)
      | Some (PthFile checkpoint) \<Rightarrow>
          (case dict_get checkpoint ''epoch'' of
             Inl e \<Rightarrow> (Inl e, w)
           | Inr ep \<Rightarrow>
          (case dict_get checkpoint ''best_acc1'' of
             Inl e \<Rightarrow> (Inl e, w\<lparr>start_epoch := ep\<rparr>)
           | Inr best \<Rightarrow>
          (case (if gpu a \<noteq> None then tensor_to best else Inr best) of
             Inl e \<Rightarrow> (Inl e, w\<lparr>start_epoch := ep, best_acc1 := best\<rparr>)
           | Inr moved \<Rightarrow>
          (let w1 = w\<lparr>start_epoch := ep, best_acc1 := moved\<rparr> in
           case dict_get checkpoint ''state_dict'' of
             Inl e \<Rightarrow> (Inl e, w1)
           | Inr (PyStateDict state_dict) \<Rightarrow>
               (case resume_state_dict state_dict (params (model w1)) of
                  Inl e \<Rightarrow> (Inl e, w1)
                | Inr loaded \<Rightarrow>
               (case load_state_dict (model w1) loaded of
                  Inl e \<Rightarrow> (Inl e, w1\<lparr>calls := calls w1 @ [Call_load_state_dict loaded]\<rparr>)
                | Inr m \<Rightarrow>
               (let w2 = w1\<lparr>model := m, calls := calls w1 @ [Call_load_state_dict loaded]\<rparr> in
                case dict_get checkpoint ''optimizer'' of
                  Inl e \<Rightarrow> (Inl e, w2)
                | Inr opt \<Rightarrow> (Inr (), w2\<lparr>optimizer := opt\<rparr>))))
           | Inr _ \<Rightarrow> (Inl AttributeError, w1)))))
      | Some _ \<Rightarrow> (Inl UnpicklingError, w))"

text \<open>Lines 268 to 297: a non-empty \<^verbatim>\<open>args.resume\<close> takes the first branch.\<close>

definition resume_or_calibrate :: "loaders \<Rightarrow> args \<Rightarrow> world \<Rightarrow> (py_error + unit) \<times> world" where
  "resume_or_calibrate ld a w =
     (if resume a \<noteq> [] then load_checkpoint a w
      else if quant a then
        (Inr (), w\<lparr>model := calibrate (cali_loader ld) (enable_calibration (model w)),
                   calls := calls w @ [Call_enable_calibration, Call_calibrate (cali_loader ld)]\<rparr>)
      else (Inr (), w))"

text \<open>Lines 305 to 328, the export of the deploy path.\<close>

definition deploy_export :: "rb_api \<Rightarrow> args \<Rightarrow> world \<Rightarrow> (py_error + unit) \<times> world" where
  "deploy_export rb a w =
     (let output_dir = arch a;
          m1 = model_eval (model w);
          w1 = w\<lparr>model := (convert_merge_bn m1)\<lparr>on_cpu := True\<rparr>,
                 calls := calls w @ [Call_convert_merge_bn m1]\<rparr>;
          export_sg_file = os_path_join output_dir (arch a @ ''.sg'');
          clip_range_file = os_path_join output_dir (arch a @ ''_act_clip.json'');
          m2 = model_eval (model w1);
          w2 = w1\<lparr>model := m2, calls := calls w1 @ [Call_gen_sg m2]\<rparr>
      in case gen_sg_from_pytorch rb m2 of
           Inl e \<Rightarrow> (Inl e, w2)
         | Inr (sg, written) \<Rightarrow>
             (let f1 = (case written of
                          None \<Rightarrow> fsys w2
                        | Some c \<Rightarrow> write_file (fsys w2) clip_range_file (JsonFile c));
                  w3 = w2\<lparr>fsys := save_sg f1 sg export_sg_file\<rparr>
              in case read_json (fsys w3) clip_range_file of
                   Inl e \<Rightarrow> (Inl e, w3)
                 | Inr clips \<Rightarrow>
                     (case gen_quant_sg_from_clip_ranges rb sg clips qconfig of
                        Inl e \<Rightarrow> (Inl e, w3)
                      | Inr qsg \<Rightarrow>
                          (Inr (), w3\<lparr>fsys := save_sg (fsys w3) qsg
                                       (str_replace export_sg_file ''.sg'' ''_8bit.sg'')\<rparr>))))"

text \<open>
  \<^verbatim>\<open>validate\<close> as far as the model goes: evaluation mode, then one forward pass per
  validation batch.
\<close>

definition validate_model :: "nat \<Rightarrow> torch_model \<Rightarrow> torch_model" where
  "validate_model n m = (forward ^^ n) (model_eval m)"

datatype outcome = Deployed | Evaluated | Training

text \<open>
  \<^verbatim>\<open>main_worker\<close> from line 267 on: it returns after the export or after the evaluation,
  and otherwise goes on to the epoch loop, at which point the embedding stops.
\<close>

definition main_worker ::
  "rb_api \<Rightarrow> loaders \<Rightarrow> args \<Rightarrow> world \<Rightarrow> (py_error + outcome) \<times> world" where
  "main_worker rb ld a w =
     (case resume_or_calibrate ld a w of
        (Inl e, w1) \<Rightarrow> (Inl e, w1)
      | (Inr _, w1) \<Rightarrow>
          (let w2 = (if quant a
                     then w1\<lparr>model := enable_quantization (model w1),
                             calls := calls w1 @ [Call_enable_quantization (model w1)]\<rparr>
                     else w1)
           in if quant a \<and> deploy a then
                (case deploy_export rb a w2 of
                   (Inl e, w3) \<Rightarrow> (Inl e, w3)
                 | (Inr _, w3) \<Rightarrow> (Inr Deployed, w3))
              else if evaluate a then
                (let w3 = (if quant a
                           then w2\<lparr>model := convert_merge_bn (model_eval (model w2)),
                                   calls := calls w2 @ [Call_convert_merge_bn (model_eval (model w2))]\<rparr>
                           else w2)
                 in (Inr Evaluated,
                     w3\<lparr>model := validate_model (val_loader ld) (model w3),
                        calls := calls w3 @ [Call_validate (val_loader ld)]\<rparr>))
              else (Inr Training, w2)))"

section \<open>The quantizer registry\<close>

text \<open>
  Modelled from the spec: \<^verbatim>\<open>mqbench.utils.registry\<close> (\<^verbatim>\<open>register_model_quantizer\<close>) is not
  among the sources. Section 4.1: \<^verbatim>\<open>register\<close> records or overwrites the mapping of a
  family name, \<^verbatim>\<open>resolve\<close> fails with \<^verbatim>\<open>UnknownFamilyError\<close> on a name that is absent.
\<close>

datatype quantizer_class = AcademicNLPQuantizer_class | other_class string

datatype registry_error = UnknownFamilyError

type_synonym registry = "string \<rightharpoonup> quantizer_class"

definition register :: "string \<Rightarrow> quantizer_class \<Rightarrow> registry \<Rightarrow> registry" where
  "register family_name cls reg = reg(family_name \<mapsto> cls)"

definition resolve :: "registry \<Rightarrow> string \<Rightarrow> registry_error + quantizer_class" where
  "resolve reg family_name =
     (case reg family_name of None \<Rightarrow> Inl UnknownFamilyError | Some cls \<Rightarrow> Inr cls)"

text \<open>
  The decorator \<^verbatim>\<open>@register_model_quantizer(name)\<close> registers the class it is applied to
  and hands the class on.
\<close>

definition register_model_quantizer ::
  "string \<Rightarrow> quantizer_class \<times> registry \<Rightarrow> quantizer_class \<times> registry" where
  "register_model_quantizer family_name cr = (fst cr, register family_name (fst cr) (snd cr))"

text \<open>
  Source: \<^verbatim>\<open>nlp_quantizer.py\<close>, lines 6 to 8. Loading the module applies the decorators
  to the class from the innermost outwards: \<^verbatim>\<open>'Transformer'\<close> first, \<^verbatim>\<open>'CNN'\<close> second.
\<close>

definition nlp_quantizer_load :: "registry \<Rightarrow> registry" where
  "nlp_quantizer_load reg =
     snd (register_model_quantizer ''CNN''
            (register_model_quantizer ''Transformer'' (AcademicNLPQuantizer_class, reg)))"

section \<open>A sample run\<close>

text \<open>
  A model with one fake-quant node as graph preparation leaves it, a checkpoint saved
  from the model under a \<^verbatim>\<open>DataParallel\<close> wrapper, a compiler whose calls succeed and
  one whose derivation of the quantized graph raises.
\<close>

definition example_model :: torch_model where
  "example_model =
     \<lparr>training = True, nodes = [\<lparr>mode = disabled, observed = 0\<rparr>], merged_bn = False,
      on_cpu = False, params = [(''conv1.weight'', 0), (''fc.bias'', 0)]\<rparr>"

definition example_checkpoint :: "pyval dict" where
  "example_checkpoint =
     [(''epoch'', PyInt 3), (''arch'', PyStr ''resnet18''),
      (''state_dict'', PyStateDict [(''module.conv1.weight'', 1), (''module.fc.bias'', 2)]),
      (''best_acc1'', PyTensor 70), (''optimizer'', PyObject 1)]"

definition example_world :: world where
  "example_world =
     \<lparr>model = example_model, optimizer = PyObject 0, start_epoch = PyInt 0,
      best_acc1 = PyInt 0,
      fsys = \<lparr>dirs = {}, files = [''ckpt.pth.tar'' \<mapsto> PthFile example_checkpoint]\<rparr>,
      calls = []\<rparr>"

text \<open>
  A checkpoint in which a key without its first seven characters is a later key, and a
  model with the one parameter that is left.
\<close>

definition clash_checkpoint :: "pyval dict" where
  "clash_checkpoint =
     [(''epoch'', PyInt 3), (''arch'', PyStr ''resnet18''),
      (''state_dict'', PyStateDict [(''module.module.z.w'', 1), (''module.z.w'', 2)]),
      (''best_acc1'', PyTensor 70), (''optimizer'', PyObject 1)]"

definition clash_world :: world where
  "clash_world =
     \<lparr>model = example_model\<lparr>params := [(''z.w'', 0)]\<rparr>, optimizer = PyObject 0,
      start_epoch = PyInt 0, best_acc1 = PyInt 0,
      fsys = \<lparr>dirs = {}, files = [''ckpt.pth.tar'' \<mapsto> PthFile clash_checkpoint]\<rparr>,
      calls = []\<rparr>"

definition example_rb :: rb_api where
  "example_rb =
     \<lparr>gen_sg_from_pytorch = (\<lambda>m. Inr (SGraph 0, Some [(''conv1'', 0, 6)])),
      gen_quant_sg_from_clip_ranges = (\<lambda>sg clips q. Inr (SGraph 1))\<rparr>"

definition failing_rb :: rb_api where
  "failing_rb =
     \<lparr>gen_sg_from_pytorch = (\<lambda>m. Inr (SGraph 0, Some [(''conv1'', 0, 6)])),
      gen_quant_sg_from_clip_ranges = (\<lambda>sg clips q. Inl RuntimeError)\<rparr>"

definition example_ops :: number_ops where
  "example_ops =
     \<lparr>render_2f = (\<lambda>v. Inr ''70.00''), render = (\<lambda>v. ''0''), minus_one = (\<lambda>x. x - 1)\<rparr>"

definition example_loaders :: loaders where
  "example_loaders = \<lparr>cali_loader = 2, val_loader = 1\<rparr>"

section \<open>Properties of the rule accessors\<close>

text \<open>
  C1: for every instance, \<^verbatim>\<open>function_type_to_quant_input\<close> is the base rule
  \<^verbatim>\<open>[torch.matmul]\<close> followed by the instance's \<^verbatim>\<open>additional_function_type\<close>, and
  \<^verbatim>\<open>module_type_to_quant_input\<close> is the base rule \<^verbatim>\<open>(Linear,)\<close> followed by its
  \<^verbatim>\<open>additional_module_type\<close>; every element of either extension is in the result.
\<close>

theorem quant_input_base_then_extension:
  "function_type_to_quant_input self = torch_matmul # additional_function_type self
   \<and> module_type_to_quant_input self = qat_Linear # additional_module_type self
   \<and> set (additional_function_type self) \<subseteq> set (function_type_to_quant_input self)
   \<and> set (additional_module_type self) \<subseteq> set (module_type_to_quant_input self)"
  by (auto simp: function_type_to_quant_input_def module_type_to_quant_input_def)

text \<open>
  C4: the accessor keeps duplicates. For an extension \<open>A\<close> the result has \<open>1 + |A|\<close>
  entries, the base entry at index 0 and the entries of \<open>A\<close> after it in their order, and
  \<^verbatim>\<open>torch.matmul\<close> occurs once more in the result than in \<open>A\<close>.
\<close>

theorem function_rules_keep_duplicates:
  "length (function_type_to_quant_input self) = 1 + length (additional_function_type self)
   \<and> hd (function_type_to_quant_input self) = torch_matmul
   \<and> tl (function_type_to_quant_input self) = additional_function_type self
   \<and> count_list (function_type_to_quant_input self) torch_matmul
       = 1 + count_list (additional_function_type self) torch_matmul
   \<and> function_type_to_quant_input
         \<lparr>additional_function_type = [torch_matmul], additional_module_type = []\<rparr>
       = [torch_matmul, torch_matmul]"
  by (simp add: function_type_to_quant_input_def)

section \<open>Properties of the registry\<close>

text \<open>
  C2: after the module is loaded, \<^verbatim>\<open>'CNN'\<close> and \<^verbatim>\<open>'Transformer'\<close> both resolve to the
  class \<^verbatim>\<open>AcademicNLPQuantizer\<close>, whatever the registry held before; a family name
  resolves to one class, and a later registration of a name overwrites the earlier one.
\<close>

theorem registry_after_load:
  "resolve (nlp_quantizer_load reg) ''CNN'' = Inr AcademicNLPQuantizer_class
   \<and> resolve (nlp_quantizer_load reg) ''Transformer'' = Inr AcademicNLPQuantizer_class
   \<and> resolve (register family_name later (register family_name earlier reg)) family_name
       = Inr later
   \<and> resolve (register family_name later (nlp_quantizer_load reg)) family_name = Inr later"
  by (simp add: resolve_def nlp_quantizer_load_def register_model_quantizer_def register_def)

section \<open>Properties of \<^verbatim>\<open>save_checkpoint\<close>\<close>

lemma rstrip_sep_id: "p \<noteq> [] \<Longrightarrow> last p \<noteq> CHR ''/'' \<Longrightarrow> rstrip_sep p = p"
proof -
  assume a: "p \<noteq> []" "last p \<noteq> CHR ''/''"
  then obtain x xs where r: "rev p = x # xs" by (cases "rev p") auto
  with a have "x \<noteq> CHR ''/''" by (metis last_rev list.sel(1) rev_rev_ident)
  with r have "dropWhile (\<lambda>c. c = CHR ''/'') (rev p) = rev p" by simp
  then show ?thesis by (simp add: rstrip_sep_def)
qed

lemma dirname_plain: "CHR ''/'' \<notin> set p \<Longrightarrow> os_path_dirname p = []"
proof -
  assume "CHR ''/'' \<notin> set p"
  then have "dropWhile (\<lambda>c. c \<noteq> CHR ''/'') (rev p) = []"
    by (auto simp: dropWhile_eq_Nil_conv)
  then show ?thesis by (simp add: os_path_dirname_def)
qed

lemma dirname_in_dir:
  assumes "d \<noteq> []" "CHR ''/'' \<notin> set d" "CHR ''/'' \<notin> set b"
  shows "os_path_dirname (d @ ''/'' @ b) = d"
proof -
  have "dropWhile (\<lambda>c. c \<noteq> CHR ''/'') (rev b @ CHR ''/'' # rev d) = CHR ''/'' # rev d"
  proof -
    have "\<And>x. x \<in> set (rev b) \<Longrightarrow> x \<noteq> CHR ''/''" using assms(3) by auto
    then have "dropWhile (\<lambda>c. c \<noteq> CHR ''/'') (rev b @ CHR ''/'' # rev d)
               = dropWhile (\<lambda>c. c \<noteq> CHR ''/'') (CHR ''/'' # rev d)"
      by (rule dropWhile_append2)
    then show ?thesis by simp
  qed
  then have head: "rev (dropWhile (\<lambda>c. c \<noteq> CHR ''/'') (rev (d @ ''/'' @ b))) = d @ ''/''"
    by simp
  have notall: "\<not> list_all (\<lambda>c. c = CHR ''/'') (d @ ''/'')"
    using assms(1,2) by (cases d) auto
  have "last d \<in> set d" using assms(1) by simp
  with assms(2) have "last d \<noteq> CHR ''/''" by metis
  then have strip: "rstrip_sep (d @ ''/'') = d"
    using rstrip_sep_id [OF assms(1)] by (simp add: rstrip_sep_def)
  show ?thesis
    unfolding os_path_dirname_def Let_def head using notall strip by simp
qed

lemma join_plain:
  assumes "d \<noteq> []" "CHR ''/'' \<notin> set d" "\<not> prefix ''/'' b"
  shows "os_path_join d b = d @ ''/'' @ b"
proof -
  have "last d \<in> set d" using assms(1) by simp
  with assms(2) have "last d \<noteq> CHR ''/''" by metis
  with assms(1,3) show ?thesis by (simp add: os_path_join_def)
qed

lemma str_contains_self: "str_contains sub (sub @ r)"
proof (cases "sub @ r")
  case Nil
  then show ?thesis by simp
next
  case (Cons c cs)
  have "prefix sub (sub @ r)" by simp
  with Cons show ?thesis by simp
qed

lemma str_contains_append: "str_contains sub (a @ sub @ r)"
proof (induction a)
  case Nil
  show ?case using str_contains_self [of sub r] by simp
next
  case (Cons x a)
  then show ?case by simp
qed

lemma acc_name_not_best: "a @ ''_acc_'' @ r \<noteq> ''model_best.pth.tar''"
proof
  assume "a @ ''_acc_'' @ r = ''model_best.pth.tar''"
  then have "str_contains ''_acc_'' ''model_best.pth.tar''"
    using str_contains_append [of "''_acc_''" a r] by simp
  then show False by simp
qed

lemma map_of_filter_other:
  "k \<noteq> k' \<Longrightarrow> map_of (filter (\<lambda>kv. fst kv \<noteq> k') d) k = map_of d k"
  by (induction d) auto

lemma map_of_filter_same: "map_of (filter (\<lambda>kv. fst kv \<noteq> k) d) k = None"
  by (induction d) auto

text \<open>Writing a file into an existing directory whose name has no separator.\<close>

lemma open_write_in_dir:
  assumes "d \<noteq> []" "CHR ''/'' \<notin> set d" "b \<noteq> []" "CHR ''/'' \<notin> set b"
    and "d \<in> dirs f" "d @ ''/'' @ b \<notin> dirs f"
  shows "open_write f (d @ ''/'' @ b) c = Inr (write_file f (d @ ''/'' @ b) c)"
proof -
  have "last b \<in> set b" using assms(3) by simp
  with assms(4) have "last b \<noteq> CHR ''/''" by metis
  then have "last (d @ ''/'' @ b) \<noteq> CHR ''/''" using assms(3) by simp
  then have strip: "rstrip_sep (d @ ''/'' @ b) = d @ ''/'' @ b"
    by (intro rstrip_sep_id) simp_all
  have "parent_exists f (d @ ''/'' @ b)"
    unfolding parent_exists_def Let_def strip dirname_in_dir [OF assms(1,2,4)]
    using assms(5) by simp
  with strip assms(6) show ?thesis by (simp add: open_write_def)
qed

lemma ensure_dir:
  assumes "d \<noteq> []" "CHR ''/'' \<notin> set d" "d \<notin> dom (files f)"
  shows "(if \<not> os_path_isdir f d then os_mkdir f d else Inr f)
         = Inr (f\<lparr>dirs := insert d (dirs f)\<rparr>)"
proof -
  have "last d \<in> set d" using assms(1) by simp
  with assms(2) have "last d \<noteq> CHR ''/''" by metis
  then have strip: "rstrip_sep d = d" by (rule rstrip_sep_id [OF assms(1)])
  have par: "parent_exists f d"
    by (simp add: parent_exists_def strip dirname_plain [OF assms(2)])
  show ?thesis
  proof (cases "d \<in> dirs f")
    case True
    then have "f\<lparr>dirs := insert d (dirs f)\<rparr> = f" by (simp add: insert_absorb)
    with True assms(1) strip show ?thesis by (simp add: os_path_isdir_def)
  next
    case False
    with assms(1,3) strip par show ?thesis
      by (simp add: os_path_isdir_def os_mkdir_def Let_def)
  qed
qed

text \<open>
  C9: for a state dictionary as the driver passes it (\<^verbatim>\<open>'arch'\<close> a non-empty name without
  \<^verbatim>\<open>/\<close>, \<^verbatim>\<open>'cur_acc'\<close> a value that \<^verbatim>\<open>{:.2f}\<close> renders, \<^verbatim>\<open>'epoch'\<close> an integer), renderings
  that contain no \<^verbatim>\<open>/\<close>, no file in the place of the directory and no directory in the
  place of the two files, \<^verbatim>\<open>save_checkpoint\<close> returns normally; the caller's dictionary
  has lost the key \<^verbatim>\<open>'cur_acc'\<close> and kept every other key with its value; the file saved
  holds the dictionary without \<^verbatim>\<open>'cur_acc'\<close>; and with \<^verbatim>\<open>is_best\<close> the file
  \<^verbatim>\<open>model_best.pth.tar\<close> in the directory named after the architecture holds the same
  content, while without it that file is left as it was.
\<close>

theorem save_checkpoint_effect:
  assumes arch: "map_of state ''arch'' = Some (PyStr model_name)"
    and name: "model_name \<noteq> []" "CHR ''/'' \<notin> set model_name"
    and acc: "map_of state ''cur_acc'' = Some cur_acc"
    and epoch: "map_of state ''epoch'' = Some (PyInt ep)"
    and fmt: "render_2f ops cur_acc = Inr acc_2f"
    and plain: "CHR ''/'' \<notin> set acc_2f" "CHR ''/'' \<notin> set (render ops (PyInt (ep - 1)))"
    and nofile: "model_name \<notin> dom (files f)"
    and nodir:
      "model_name @ ''/'' @ model_name @ ''_acc_'' @ acc_2f @ ''_epoch_''
         @ render ops (PyInt (ep - 1)) @ ''.pth.tar'' \<notin> dirs f"
      "model_name @ ''/'' @ ''model_best.pth.tar'' \<notin> dirs f"
  shows "\<exists>f'. save_checkpoint ops state is_best f
                = (Inr (), filter (\<lambda>kv. fst kv \<noteq> ''cur_acc'') state, f')
     \<and> map_of (filter (\<lambda>kv. fst kv \<noteq> ''cur_acc'') state) ''cur_acc'' = None
     \<and> (\<forall>k. k \<noteq> ''cur_acc''
            \<longrightarrow> map_of (filter (\<lambda>kv. fst kv \<noteq> ''cur_acc'') state) k = map_of state k)
     \<and> model_name \<in> dirs f'
     \<and> files f' (model_name @ ''/'' @ model_name @ ''_acc_'' @ acc_2f @ ''_epoch_''
                    @ render ops (PyInt (ep - 1)) @ ''.pth.tar'')
         = Some (PthFile (filter (\<lambda>kv. fst kv \<noteq> ''cur_acc'') state))
     \<and> (is_best \<longrightarrow> files f' (model_name @ ''/'' @ ''model_best.pth.tar'')
                       = Some (PthFile (filter (\<lambda>kv. fst kv \<noteq> ''cur_acc'') state)))
     \<and> (\<not> is_best \<longrightarrow> files f' (model_name @ ''/'' @ ''model_best.pth.tar'')
                       = files f (model_name @ ''/'' @ ''model_best.pth.tar''))"
proof -
  define state1 where "state1 = filter (\<lambda>kv. fst kv \<noteq> ''cur_acc'') state"
  define base where "base = model_name @ ''_acc_'' @ acc_2f @ ''_epoch_''
     @ render ops (PyInt (ep - 1)) @ ''.pth.tar''"
  define filename where "filename = model_name @ ''/'' @ base"
  define best_f where "best_f = model_name @ ''/'' @ ''model_best.pth.tar''"
  define f1 where "f1 = f\<lparr>dirs := insert model_name (dirs f)\<rparr>"
  define f2 where "f2 = write_file f1 filename (PthFile state1)"
  define f3 where "f3 = (if is_best then write_file f2 best_f (PthFile state1) else f2)"
  have base_ne: "base \<noteq> []" and base_plain: "CHR ''/'' \<notin> set base"
    using name plain by (simp_all add: base_def)
  have j1: "os_path_join model_name
      (model_name @ ''_acc_'' @ acc_2f @ ''_epoch_'' @ render ops (PyInt (ep - 1)) @ ''.pth.tar'')
      = filename"
    unfolding filename_def base_def by (rule join_plain [OF name]) (use name in \<open>cases model_name; simp\<close>)
  have j2: "os_path_join model_name ''model_best.pth.tar'' = best_f"
    unfolding best_f_def by (rule join_plain [OF name]) simp
  have ne: "filename \<noteq> best_f"
    using acc_name_not_best [of model_name "acc_2f @ ''_epoch_'' @ render ops (PyInt (ep - 1)) @ ''.pth.tar''"]
    by (simp add: filename_def best_f_def base_def)
  have mk: "(if \<not> os_path_isdir f model_name then os_mkdir f model_name else Inr f) = Inr f1"
    unfolding f1_def by (rule ensure_dir [OF name nofile])
  have pop: "dict_pop state ''cur_acc'' = Inr (cur_acc, state1)"
    using acc by (simp add: dict_pop_def state1_def)
  have ep1: "dict_get state1 ''epoch'' = Inr (PyInt ep)"
    using epoch by (simp add: dict_get_def state1_def map_of_filter_other)
  have sub: "py_sub1 ops (PyInt ep) = Inr (PyInt (ep - 1))" by (simp add: py_sub1_def)
  have nd1: "filename \<notin> dirs f1"
    using nodir(1) by (simp add: f1_def filename_def base_def)
  have save: "torch_save f1 state1 filename = Inr f2"
    unfolding torch_save_def f2_def filename_def
    by (rule open_write_in_dir [OF name base_ne base_plain])
       (use nd1 in \<open>simp_all add: f1_def filename_def\<close>)
  have nd2: "best_f \<notin> dirs f2"
    using nodir(2) by (simp add: f2_def f1_def write_file_def best_f_def)
  have src: "files f2 filename = Some (PthFile state1)"
    by (simp add: f2_def write_file_def)
  have "open_write f2 best_f (PthFile state1) = Inr (write_file f2 best_f (PthFile state1))"
    unfolding best_f_def
    by (rule open_write_in_dir [OF name])
       (use nd2 in \<open>simp_all add: f2_def f1_def write_file_def best_f_def\<close>)
  then have copy: "shutil_copyfile f2 filename best_f
                   = Inr (write_file f2 best_f (PthFile state1))"
    using ne src by (simp add: shutil_copyfile_def)
  have run: "save_checkpoint ops state is_best f = (Inr (), state1, f3)"
    using arch mk pop ep1 sub fmt save copy
    by (simp add: save_checkpoint_def dict_get_def Let_def j1 [simplified] j2 f3_def)
  have d: "model_name \<in> dirs f3"
    by (simp add: f3_def f2_def f1_def write_file_def)
  have saved: "files f3 filename = Some (PthFile state1)"
    using ne by (simp add: f3_def f2_def write_file_def)
  have best: "is_best \<Longrightarrow> files f3 best_f = Some (PthFile state1)"
    by (simp add: f3_def write_file_def)
  have nobest: "\<not> is_best \<Longrightarrow> files f3 best_f = files f best_f"
    using ne by (simp add: f3_def f2_def f1_def write_file_def)
  have gone: "map_of state1 ''cur_acc'' = None"
    by (simp add: state1_def map_of_filter_same)
  have kept: "\<forall>k. k \<noteq> ''cur_acc'' \<longrightarrow> map_of state1 k = map_of state k"
    by (simp add: state1_def map_of_filter_other)
  show ?thesis
    using run d saved best nobest gone kept
    unfolding state1_def filename_def best_f_def base_def by blast
qed

theorem save_checkpoint_effect_witness:
  "map_of [(''epoch'', PyInt 1), (''arch'', PyStr ''resnet18''), (''cur_acc'', PyTensor 70),
           (''best_acc1'', PyTensor 70)] ''arch'' = Some (PyStr ''resnet18'')
   \<and> ''resnet18'' \<noteq> []
   \<and> CHR ''/'' \<notin> set ''resnet18''
   \<and> map_of [(''epoch'', PyInt 1), (''arch'', PyStr ''resnet18''), (''cur_acc'', PyTensor 70),
           (''best_acc1'', PyTensor 70)] ''cur_acc'' = Some (PyTensor 70)
   \<and> map_of [(''epoch'', PyInt 1), (''arch'', PyStr ''resnet18''), (''cur_acc'', PyTensor 70),
           (''best_acc1'', PyTensor 70)] ''epoch'' = Some (PyInt 1)
   \<and> render_2f example_ops (PyTensor 70) = Inr ''70.00''
   \<and> CHR ''/'' \<notin> set ''70.00''
   \<and> CHR ''/'' \<notin> set (render example_ops (PyInt (1 - 1)))
   \<and> ''resnet18'' \<notin> dom (files \<lparr>dirs = {}, files = Map.empty\<rparr>)
   \<and> ''resnet18/resnet18_acc_70.00_epoch_0.pth.tar'' \<notin> dirs \<lparr>dirs = {}, files = Map.empty\<rparr>
   \<and> ''resnet18/model_best.pth.tar'' \<notin> dirs \<lparr>dirs = {}, files = Map.empty\<rparr>
   \<and> (\<exists>f'. save_checkpoint example_ops
               [(''epoch'', PyInt 1), (''arch'', PyStr ''resnet18''), (''cur_acc'', PyTensor 70),
                (''best_acc1'', PyTensor 70)] True \<lparr>dirs = {}, files = Map.empty\<rparr>
             = (Inr (), [(''epoch'', PyInt 1), (''arch'', PyStr ''resnet18''),
                         (''best_acc1'', PyTensor 70)], f')
          \<and> ''resnet18'' \<in> dirs f'
          \<and> files f' ''resnet18/resnet18_acc_70.00_epoch_0.pth.tar''
              = Some (PthFile [(''epoch'', PyInt 1), (''arch'', PyStr ''resnet18''),
                               (''best_acc1'', PyTensor 70)])
          \<and> files f' ''resnet18/model_best.pth.tar''
              = Some (PthFile [(''epoch'', PyInt 1), (''arch'', PyStr ''resnet18''),
                               (''best_acc1'', PyTensor 70)]))"
proof -
  let ?state = "[(''epoch'', PyInt 1), (''arch'', PyStr ''resnet18''), (''cur_acc'', PyTensor 70),
           (''best_acc1'', PyTensor 70)]"
  let ?f = "\<lparr>dirs = {}, files = Map.empty\<rparr>"
  have h1: "map_of ?state ''arch'' = Some (PyStr ''resnet18'')" by simp
  have n1: "''resnet18'' \<noteq> []" and n2: "CHR ''/'' \<notin> set ''resnet18''" by simp_all
  have h2: "map_of ?state ''cur_acc'' = Some (PyTensor 70)" by simp
  have h3: "map_of ?state ''epoch'' = Some (PyInt 1)" by simp
  have h4: "render_2f example_ops (PyTensor 70) = Inr ''70.00''" by (simp add: example_ops_def)
  have p1: "CHR ''/'' \<notin> set ''70.00''" by simp
  have p2: "CHR ''/'' \<notin> set (render example_ops (PyInt (1 - 1)))"
    by (simp add: example_ops_def)
  have h5: "''resnet18'' \<notin> dom (files ?f)" by simp
  have d1: "''resnet18'' @ ''/'' @ ''resnet18'' @ ''_acc_'' @ ''70.00'' @ ''_epoch_''
         @ render example_ops (PyInt (1 - 1)) @ ''.pth.tar'' \<notin> dirs ?f" by simp
  have d2: "''resnet18'' @ ''/'' @ ''model_best.pth.tar'' \<notin> dirs ?f" by simp
  from save_checkpoint_effect [where is_best = True, OF h1 n1 n2 h2 h3 h4 p1 p2 h5 d1 d2]
  obtain f' where
    "save_checkpoint example_ops ?state True ?f
       = (Inr (), [(''epoch'', PyInt 1), (''arch'', PyStr ''resnet18''),
                   (''best_acc1'', PyTensor 70)], f')"
    "''resnet18'' \<in> dirs f'"
    "files f' ''resnet18/resnet18_acc_70.00_epoch_0.pth.tar''
       = Some (PthFile [(''epoch'', PyInt 1), (''arch'', PyStr ''resnet18''),
                        (''best_acc1'', PyTensor 70)])"
    "files f' ''resnet18/model_best.pth.tar''
       = Some (PthFile [(''epoch'', PyInt 1), (''arch'', PyStr ''resnet18''),
                        (''best_acc1'', PyTensor 70)])"
    by (auto simp: example_ops_def)
  then show ?thesis using h1 h2 h3 h4 p2 by auto
qed

section \<open>Properties of the driver\<close>

lemmas example_defs = example_model_def example_checkpoint_def example_world_def
  clash_checkpoint_def clash_world_def example_rb_def failing_rb_def example_loaders_def

lemmas driver_defs = main_worker_def resume_or_calibrate_def load_checkpoint_def
  deploy_export_def calibrate_def validate_model_def enable_calibration_def
  enable_quantization_def set_mode_def forward_def model_eval_def convert_merge_bn_def
  load_state_dict_def resume_state_dict_def dict_get_def dict_pop_def dict_set_def tensor_to_def
  save_sg_def write_file_def read_json_def os_path_join_def

text \<open>
  Loading a checkpoint changes the parameters of the model, the optimizer and the two
  values read; it leaves the fake-quant nodes, the training flag and the files, and it
  logs nothing but its \<^verbatim>\<open>load_state_dict\<close>.
\<close>

lemma load_checkpoint_frame:
  "nodes (model (snd (load_checkpoint a w))) = nodes (model w)
   \<and> training (model (snd (load_checkpoint a w))) = training (model w)
   \<and> fsys (snd (load_checkpoint a w)) = fsys w
   \<and> (\<exists>ls. calls (snd (load_checkpoint a w)) = calls w @ map Call_load_state_dict ls)"
proof -
  have sd: "\<And>m sd m'. load_state_dict m sd = Inr m'
      \<Longrightarrow> nodes m' = nodes m \<and> training m' = training m"
    by (auto simp: load_state_dict_def split: if_splits)
  show ?thesis
    unfolding load_checkpoint_def Let_def
    by (auto split: option.splits fcontent.splits sum.splits pyval.splits
             dest: sd intro: exI [of _ "[]"] exI [of _ "[l]" for l])
qed

lemma stage_no_merge_call:
  assumes "Call_convert_merge_bn m \<in> set (calls (snd (resume_or_calibrate ld a w)))"
  shows "Call_convert_merge_bn m \<in> set (calls w)"
proof -
  from load_checkpoint_frame [of a w] obtain ls where
    "calls (snd (load_checkpoint a w)) = calls w @ map Call_load_state_dict ls" by blast
  then show ?thesis using assms
    by (auto simp: resume_or_calibrate_def split: if_splits)
qed

lemma set_mode_nodes: "list_all (\<lambda>n. mode n = md) (nodes (set_mode md m))"
  by (simp add: set_mode_def list_all_iff)

lemma deploy_export_calls:
  "calls (snd (deploy_export rb a w))
   = calls w @ [Call_convert_merge_bn (model_eval (model w)),
                Call_gen_sg (model_eval
                  ((convert_merge_bn (model_eval (model w)))\<lparr>on_cpu := True\<rparr>))]"
  unfolding deploy_export_def Let_def
  by (simp split: sum.splits prod.splits option.splits)

lemma main_worker_deploy_world:
  assumes "resume_or_calibrate ld a w = (Inr u, w1)" "quant a" "deploy a"
  shows "snd (main_worker rb ld a w)
         = snd (deploy_export rb a
                  (w1\<lparr>model := enable_quantization (model w1),
                      calls := calls w1 @ [Call_enable_quantization (model w1)]\<rparr>))"
  using assms by (simp add: main_worker_def Let_def split: prod.splits sum.splits)

text \<open>
  C5: every call of \<^verbatim>\<open>convert_merge_bn\<close> the driver makes, on the deploy path and on the
  evaluate path, is given \<^verbatim>\<open>model.eval()\<close> of the model \<^verbatim>\<open>enable_quantization\<close> was just
  applied to: the model folded is in evaluation mode, all its fake-quant nodes are in
  quantized mode and none is calibrating.
\<close>

theorem merge_bn_only_in_eval_mode:
  assumes "Call_convert_merge_bn m \<notin> set (calls w)"
    and "Call_convert_merge_bn m \<in> set (calls (snd (main_worker rb ld a w)))"
  shows "\<not> training m
         \<and> (\<exists>m0. m = model_eval (enable_quantization m0))
         \<and> list_all (\<lambda>n. mode n = quantized) (nodes m)
         \<and> merge_bn_ready m"
proof -
  obtain r w1 where st: "resume_or_calibrate ld a w = (r, w1)"
    by (cases "resume_or_calibrate ld a w")
  have no1: "Call_convert_merge_bn m \<notin> set (calls w1)"
    using stage_no_merge_call [of m ld a w] assms(1) st by auto
  have m: "m = model_eval (enable_quantization (model w1))"
  proof (cases r)
    case (Inl e)
    with st assms(2) no1 show ?thesis by (simp add: main_worker_def)
  next
    case (Inr u)
    show ?thesis
    proof (cases "quant a \<and> deploy a")
      case True
      with main_worker_deploy_world [of ld a w u w1 rb] st Inr assms(2) no1 show ?thesis
        by (simp add: deploy_export_calls)
    next
      case False
      with st Inr assms(2) no1 show ?thesis
        by (auto simp: main_worker_def Let_def split: if_splits)
    qed
  qed
  have q: "list_all (\<lambda>n. mode n = quantized) (nodes m)"
    using set_mode_nodes [of quantized "model w1"]
    by (simp add: m model_eval_def enable_quantization_def)
  have t: "\<not> training m" by (simp add: m model_eval_def)
  have "merge_bn_ready m"
    using q t by (auto simp: merge_bn_ready_def list_all_iff)
  with q t m show ?thesis by blast
qed

theorem merge_bn_only_in_eval_mode_witness:
  "Call_convert_merge_bn
     \<lparr>training = False, nodes = [\<lparr>mode = quantized, observed = 2\<rparr>], merged_bn = False,
      on_cpu = False, params = [(''conv1.weight'', 0), (''fc.bias'', 0)]\<rparr>
     \<notin> set (calls example_world)
   \<and> Call_convert_merge_bn
     \<lparr>training = False, nodes = [\<lparr>mode = quantized, observed = 2\<rparr>], merged_bn = False,
      on_cpu = False, params = [(''conv1.weight'', 0), (''fc.bias'', 0)]\<rparr>
     \<in> set (calls (snd (main_worker example_rb example_loaders
          \<lparr>arch = ''resnet18'', resume = [], gpu = None, quant = True, deploy = True, evaluate = False\<rparr>
          example_world)))
   \<and> merge_bn_ready
     \<lparr>training = False, nodes = [\<lparr>mode = quantized, observed = 2\<rparr>], merged_bn = False,
      on_cpu = False, params = [(''conv1.weight'', 0), (''fc.bias'', 0)]\<rparr>"
proof -
  let ?m = "\<lparr>training = False, nodes = [\<lparr>mode = quantized, observed = 2\<rparr>],
      merged_bn = False, on_cpu = False, params = [(''conv1.weight'', 0), (''fc.bias'', 0)]\<rparr>"
  let ?a = "\<lparr>arch = ''resnet18'', resume = [], gpu = None, quant = True, deploy = True, evaluate = False\<rparr>"
  have h1: "Call_convert_merge_bn ?m \<notin> set (calls example_world)"
    by (simp add: example_world_def)
  have h2: "Call_convert_merge_bn ?m
      \<in> set (calls (snd (main_worker example_rb example_loaders ?a example_world)))"
    by (simp add: driver_defs example_defs Let_def eval_nat_numeral)
  from merge_bn_only_in_eval_mode [OF h1 h2] h1 h2 show ?thesis by simp
qed

lemma forward_quantized:
  assumes "list_all (\<lambda>n. mode n = quantized) (nodes m)"
  shows "nodes ((forward ^^ k) m) = nodes m \<and> training ((forward ^^ k) m) = training m"
proof (induction k)
  case 0
  show ?case by simp
next
  case (Suc k)
  have "map (\<lambda>n. if mode n = calibrating then n\<lparr>observed := Suc (observed n)\<rparr> else n) (nodes m)
        = nodes m"
    using assms by (induction "nodes m") (auto simp: list_all_iff map_idI)
  with Suc show ?case by (simp add: forward_def)
qed

text \<open>
  C3: \<^verbatim>\<open>enable_quantization\<close> switches every node to quantized mode and leaves the
  statistics as they are, also when no batch was observed. With \<^verbatim>\<open>args.resume\<close> set and
  quantization on, the driver calls neither \<^verbatim>\<open>enable_calibration\<close> nor \<^verbatim>\<open>calibrate\<close>; it
  calls \<^verbatim>\<open>enable_quantization\<close> on a model whose nodes are those it started with; and,
  when the checkpoint (if the file exists) loads and no deploy is asked for, the run
  returns normally with every node quantized and no batch observed.
\<close>

theorem resume_skips_calibration:
  assumes res: "resume a \<noteq> []" and q: "quant a"
    and loaded: "fst (load_checkpoint a w) = Inr ()"
    and fresh: "list_all (\<lambda>n. observed n = 0) (nodes (model w))"
    and log: "calls w = []"
  shows "Call_enable_calibration \<notin> set (calls (snd (main_worker rb ld a w)))
     \<and> (\<forall>k. Call_calibrate k \<notin> set (calls (snd (main_worker rb ld a w))))
     \<and> (\<exists>m. Call_enable_quantization m \<in> set (calls (snd (main_worker rb ld a w)))
            \<and> nodes m = nodes (model w))
     \<and> nodes (enable_quantization (model w)) = map (\<lambda>n. n\<lparr>mode := quantized\<rparr>) (nodes (model w))
     \<and> (\<not> deploy a \<longrightarrow>
          fst (main_worker rb ld a w) = Inr (if evaluate a then Evaluated else Training)
          \<and> list_all (\<lambda>n. mode n = quantized \<and> observed n = 0)
                (nodes (model (snd (main_worker rb ld a w)))))"
proof -
  obtain w1 where l: "load_checkpoint a w = (Inr (), w1)"
    using loaded by (cases "load_checkpoint a w") auto
  from load_checkpoint_frame [of a w] l obtain ls where
    n1: "nodes (model w1) = nodes (model w)"
    and c1: "calls w1 = map Call_load_state_dict ls"
    using log by auto
  have st: "resume_or_calibrate ld a w = (Inr (), w1)"
    using res l by (simp add: resume_or_calibrate_def)
  define w2 where "w2 = w1\<lparr>model := enable_quantization (model w1),
                          calls := calls w1 @ [Call_enable_quantization (model w1)]\<rparr>"
  have n2: "nodes (model w2) = map (\<lambda>n. n\<lparr>mode := quantized\<rparr>) (nodes (model w))"
    by (simp add: w2_def enable_quantization_def set_mode_def n1)
  have q2: "list_all (\<lambda>n. mode n = quantized) (nodes (model w2))"
    by (simp add: n2 list_all_iff)
  have o2: "list_all (\<lambda>n. observed n = 0) (nodes (model w2))"
    using fresh by (simp add: n2 list_all_iff)
  have c2: "calls w2 = map Call_load_state_dict ls @ [Call_enable_quantization (model w1)]"
    by (simp add: w2_def c1)
  have calls_cases:
    "calls (snd (main_worker rb ld a w)) = calls w2
     \<or> calls (snd (main_worker rb ld a w))
        = calls w2 @ [Call_convert_merge_bn (model_eval (model w2)),
             Call_gen_sg (model_eval ((convert_merge_bn (model_eval (model w2)))\<lparr>on_cpu := True\<rparr>))]
     \<or> calls (snd (main_worker rb ld a w))
        = calls w2 @ [Call_convert_merge_bn (model_eval (model w2)),
                      Call_validate (val_loader ld)]"
  proof (cases "deploy a")
    case True
    with main_worker_deploy_world [OF st q, of rb] show ?thesis
      by (simp add: deploy_export_calls w2_def)
  next
    case False
    with st q show ?thesis
      by (simp add: main_worker_def Let_def w2_def)
  qed
  have part1: "Call_enable_calibration \<notin> set (calls (snd (main_worker rb ld a w)))"
    using calls_cases c2 by auto
  have part2: "\<forall>k. Call_calibrate k \<notin> set (calls (snd (main_worker rb ld a w)))"
    using calls_cases c2 by auto
  have part3: "\<exists>m. Call_enable_quantization m \<in> set (calls (snd (main_worker rb ld a w)))
            \<and> nodes m = nodes (model w)"
    using calls_cases c2 n1 by (intro exI [of _ "model w1"]) auto
  have part4: "nodes (enable_quantization (model w))
      = map (\<lambda>n. n\<lparr>mode := quantized\<rparr>) (nodes (model w))"
    by (simp add: enable_quantization_def set_mode_def)
  have part5: "\<not> deploy a \<Longrightarrow>
      fst (main_worker rb ld a w) = Inr (if evaluate a then Evaluated else Training)
      \<and> list_all (\<lambda>n. mode n = quantized \<and> observed n = 0)
            (nodes (model (snd (main_worker rb ld a w))))"
  proof -
    assume nd: "\<not> deploy a"
    have mq: "list_all (\<lambda>n. mode n = quantized) (nodes (convert_merge_bn (model_eval (model w2))))"
      using q2 by (simp add: convert_merge_bn_def model_eval_def)
    have v: "nodes (validate_model (val_loader ld) (convert_merge_bn (model_eval (model w2))))
             = nodes (model w2)"
      using forward_quantized [of "model_eval (convert_merge_bn (model_eval (model w2)))" "val_loader ld"] q2
      by (simp add: validate_model_def convert_merge_bn_def model_eval_def)
    have both: "list_all (\<lambda>n. mode n = quantized \<and> observed n = 0) (nodes (model w2))"
      using q2 o2 by (simp add: list_all_iff)
    show ?thesis
      using nd st q v both by (simp add: main_worker_def Let_def w2_def)
  qed
  show ?thesis using part1 part2 part3 part4 part5 by blast
qed

theorem resume_skips_calibration_witness:
  "resume \<lparr>arch = ''resnet18'', resume = ''ckpt.pth.tar'', gpu = None, quant = True, deploy = False,
            evaluate = True\<rparr> \<noteq> []
   \<and> fst (load_checkpoint
        \<lparr>arch = ''resnet18'', resume = ''ckpt.pth.tar'', gpu = None, quant = True, deploy = False,
           evaluate = True\<rparr> example_world) = Inr ()
   \<and> list_all (\<lambda>n. observed n = 0) (nodes (model example_world))
   \<and> calls example_world = []
   \<and> fst (main_worker example_rb example_loaders
        \<lparr>arch = ''resnet18'', resume = ''ckpt.pth.tar'', gpu = None, quant = True, deploy = False,
           evaluate = True\<rparr> example_world) = Inr Evaluated
   \<and> Call_enable_calibration \<notin> set (calls (snd (main_worker example_rb example_loaders
        \<lparr>arch = ''resnet18'', resume = ''ckpt.pth.tar'', gpu = None, quant = True, deploy = False,
           evaluate = True\<rparr> example_world)))
   \<and> list_all (\<lambda>n. mode n = quantized \<and> observed n = 0)
        (nodes (model (snd (main_worker example_rb example_loaders
        \<lparr>arch = ''resnet18'', resume = ''ckpt.pth.tar'', gpu = None, quant = True, deploy = False,
           evaluate = True\<rparr> example_world))))"
proof -
  let ?a = "\<lparr>arch = ''resnet18'', resume = ''ckpt.pth.tar'', gpu = None, quant = True, deploy = False,
           evaluate = True\<rparr>"
  have h1: "resume ?a \<noteq> []" by simp
  have h2: "quant ?a" by simp
  have h3: "fst (load_checkpoint ?a example_world) = Inr ()"
    by (simp add: driver_defs example_defs Let_def)
  have h4: "list_all (\<lambda>n. observed n = 0) (nodes (model example_world))"
    by (simp add: example_defs)
  have h5: "calls example_world = []" by (simp add: example_defs)
  from resume_skips_calibration [OF h1 h2 h3 h4 h5, of example_rb example_loaders]
  show ?thesis using h1 h3 h4 h5 by simp
qed

section \<open>Properties of the key renaming\<close>

lemma filter_todo_done:
  assumes "k \<notin> set (map fst todo)" "k \<notin> set (map fst done)"
  shows "filter (\<lambda>kv. fst kv \<noteq> k) ((k, v) # todo @ done) = todo @ done"
proof -
  have "filter (\<lambda>kv. fst kv \<noteq> k) todo = todo" using assms(1) by (induction todo) auto
  moreover have "filter (\<lambda>kv. fst kv \<noteq> k) done = done"
    using assms(2) by (induction "done") auto
  ultimately show ?thesis by simp
qed

text \<open>
  The loop invariant: the entries still to rename stand first, in their order, and the
  renamed ones follow them.
\<close>

lemma rename_keys_general:
  assumes "distinct (map fst todo)" "clash_free (map fst todo)"
    and "set (map fst todo) \<inter> set (map fst done) = {}"
    and "set (map (drop 7 \<circ> fst) todo) \<inter> set (map fst done) = {}"
  shows "rename_keys (map fst todo) (todo @ done)
         = Inr (done @ map (\<lambda>kv. (drop 7 (fst kv), snd kv)) todo)"
  using assms
proof (induction todo arbitrary: "done")
  case Nil
  then show ?case by simp
next
  case (Cons kv todo)
  obtain k v where kv: "kv = (k, v)" by (cases kv)
  from Cons.prems kv have k_todo: "k \<notin> set (map fst todo)"
    and k_done: "k \<notin> set (map fst done)"
    by auto
  have pop: "dict_pop ((k, v) # todo @ done) k = Inr (v, todo @ done)"
    using filter_todo_done [OF k_todo k_done] by (simp add: dict_pop_def)
  from Cons.prems kv have fresh: "drop 7 k \<notin> set (map fst (todo @ done))"
    by auto
  then have set: "dict_set (todo @ done) (drop 7 k) v = todo @ (done @ [(drop 7 k, v)])"
    by (simp add: dict_set_def)
  have d1: "distinct (map fst todo)" and c1: "clash_free (map fst todo)"
    using Cons.prems kv by auto
  have i1: "set (map fst todo) \<inter> set (map fst (done @ [(drop 7 k, v)])) = {}"
    using Cons.prems kv by auto
  have i2: "set (map (drop 7 \<circ> fst) todo) \<inter> set (map fst (done @ [(drop 7 k, v)])) = {}"
    using Cons.prems kv by auto
  have "rename_keys (map fst (kv # todo)) ((kv # todo) @ done)
        = rename_keys (map fst todo) (todo @ (done @ [(drop 7 k, v)]))"
    using pop set kv by simp
  also have "\<dots> = Inr ((done @ [(drop 7 k, v)]) @ map (\<lambda>kv. (drop 7 (fst kv), snd kv)) todo)"
    by (rule Cons.IH [OF d1 c1 i1 i2])
  finally show ?case using kv by simp
qed

lemma rename_keys_all:
  assumes "distinct (map fst sd)" "clash_free (map fst sd)"
  shows "rename_keys (map fst sd) sd = Inr (map (\<lambda>kv. (drop 7 (fst kv), snd kv)) sd)"
  using rename_keys_general [of sd "[]"] assms by simp

text \<open>
  What \<^verbatim>\<open>load_checkpoint\<close> does with the dictionary the renaming step yields: it is the
  argument of the one call of \<^verbatim>\<open>model.load_state_dict\<close>, and when that call returns, the
  model of the driver is the model it returns.
\<close>

lemma load_checkpoint_loads:
  assumes "files (fsys w) (resume a) = Some (PthFile checkpoint)"
    and "map_of checkpoint ''epoch'' = Some ep"
    and "map_of checkpoint ''best_acc1'' = Some best"
    and "gpu a \<noteq> None \<longrightarrow> (\<exists>t. best = PyTensor t)"
    and "map_of checkpoint ''state_dict'' = Some (PyStateDict state_dict)"
    and "resume_state_dict state_dict (params (model w)) = Inr loaded"
  shows "calls (snd (load_checkpoint a w)) = calls w @ [Call_load_state_dict loaded]
     \<and> (\<forall>m. load_state_dict (model w) loaded = Inr m
            \<longrightarrow> model (snd (load_checkpoint a w)) = m)
     \<and> (\<forall>e. load_state_dict (model w) loaded = Inl e
            \<longrightarrow> fst (load_checkpoint a w) = Inl e)"
  using assms
  by (auto simp: load_checkpoint_def dict_get_def tensor_to_def Let_def
           split: sum.splits option.splits)

text \<open>
  C8 as stated fails: the first key of the checkpoint's state dict contains
  \<^verbatim>\<open>'module.'\<close>, the first key of the model's does not, and the dictionary handed to
  \<^verbatim>\<open>load_state_dict\<close> has the one entry \<^verbatim>\<open>z.w\<close> with the value of \<^verbatim>\<open>module.module.z.w\<close>, where
  removing the first seven characters of every key gives two entries; the run goes on
  normally.
\<close>

theorem resume_renaming_counterexample:
  "str_contains ''module.'' ''module.module.z.w''
   \<and> \<not> str_contains ''module.'' ''z.w''
   \<and> map_of clash_checkpoint ''state_dict''
       = Some (PyStateDict [(''module.module.z.w'', 1), (''module.z.w'', 2)])
   \<and> params (model clash_world) = [(''z.w'', 0)]
   \<and> map (\<lambda>kv. (drop 7 (fst kv), snd kv)) [(''module.module.z.w'', 1 :: real), (''module.z.w'', 2)]
       = [(''module.z.w'', 1), (''z.w'', 2)]
   \<and> calls (snd (load_checkpoint
        \<lparr>arch = ''resnet18'', resume = ''ckpt.pth.tar'', gpu = None, quant = True,
           deploy = False, evaluate = True\<rparr> clash_world))
       = [Call_load_state_dict [(''z.w'', 1)]]
   \<and> params (model (snd (load_checkpoint
        \<lparr>arch = ''resnet18'', resume = ''ckpt.pth.tar'', gpu = None, quant = True,
           deploy = False, evaluate = True\<rparr> clash_world)))
       = [(''z.w'', 1)]
   \<and> fst (load_checkpoint
        \<lparr>arch = ''resnet18'', resume = ''ckpt.pth.tar'', gpu = None, quant = True,
           deploy = False, evaluate = True\<rparr> clash_world) = Inr ()"
  by (simp add: driver_defs example_defs Let_def)

text \<open>
  C8, as amended: on resuming from a checkpoint file that has the entries \<^verbatim>\<open>'epoch'\<close>,
  \<^verbatim>\<open>'best_acc1'\<close> (a tensor when a GPU is given) and \<^verbatim>\<open>'state_dict'\<close>, for a state dict and
  a model state dict that each have a first key: when the first key of the checkpoint's
  state dict contains \<^verbatim>\<open>'module.'\<close>, the first key of the model's does not, and no key
  without its first seven characters equals a later key of the state dict or another
  key so shortened, the dictionary loaded into the model is the state dict's entries, in
  order, each key without its first seven characters; when the condition on the first
  keys does not hold, the state dict is loaded unchanged.
\<close>

theorem resume_renames_or_keeps_keys:
  assumes ckf: "files (fsys w) (resume a) = Some (PthFile checkpoint)"
    and ep: "map_of checkpoint ''epoch'' = Some ep"
    and best: "map_of checkpoint ''best_acc1'' = Some best"
    and moved: "gpu a \<noteq> None \<longrightarrow> (\<exists>t. best = PyTensor t)"
    and sd: "map_of checkpoint ''state_dict'' = Some (PyStateDict state_dict)"
    and ne: "state_dict \<noteq> []" "params (model w) \<noteq> []"
    and dist: "distinct (map fst state_dict)"
  shows "(str_contains ''module.'' (fst (hd state_dict))
          \<and> \<not> str_contains ''module.'' (fst (hd (params (model w))))
          \<and> clash_free (map fst state_dict)
          \<longrightarrow> calls (snd (load_checkpoint a w))
                = calls w @ [Call_load_state_dict
                               (map (\<lambda>kv. (drop 7 (fst kv), snd kv)) state_dict)]
            \<and> (\<forall>m. load_state_dict (model w)
                      (map (\<lambda>kv. (drop 7 (fst kv), snd kv)) state_dict) = Inr m
                   \<longrightarrow> model (snd (load_checkpoint a w)) = m))
       \<and> (\<not> (str_contains ''module.'' (fst (hd state_dict))
              \<and> \<not> str_contains ''module.'' (fst (hd (params (model w)))))
          \<longrightarrow> calls (snd (load_checkpoint a w)) = calls w @ [Call_load_state_dict state_dict]
            \<and> (\<forall>m. load_state_dict (model w) state_dict = Inr m
                   \<longrightarrow> model (snd (load_checkpoint a w)) = m))"
proof -
  obtain first rest where s1: "state_dict = first # rest"
    using ne(1) by (cases state_dict) auto
  obtain mfirst mrest where m1: "params (model w) = mfirst # mrest"
    using ne(2) by (cases "params (model w)") auto
  have renamed: "str_contains ''module.'' (fst (hd state_dict))
      \<Longrightarrow> \<not> str_contains ''module.'' (fst (hd (params (model w))))
      \<Longrightarrow> clash_free (map fst state_dict)
      \<Longrightarrow> resume_state_dict state_dict (params (model w))
          = Inr (map (\<lambda>kv. (drop 7 (fst kv), snd kv)) state_dict)"
    using rename_keys_all [OF dist] by (simp add: resume_state_dict_def s1 m1)
  have kept: "\<not> (str_contains ''module.'' (fst (hd state_dict))
              \<and> \<not> str_contains ''module.'' (fst (hd (params (model w)))))
      \<Longrightarrow> resume_state_dict state_dict (params (model w)) = Inr state_dict"
    by (auto simp: resume_state_dict_def s1 m1)
  show ?thesis
    using load_checkpoint_loads [OF ckf ep best moved sd renamed]
          load_checkpoint_loads [OF ckf ep best moved sd kept]
    by blast
qed

theorem resume_renames_or_keeps_keys_witness:
  "files (fsys example_world) ''ckpt.pth.tar'' = Some (PthFile example_checkpoint)
   \<and> map_of example_checkpoint ''epoch'' = Some (PyInt 3)
   \<and> map_of example_checkpoint ''best_acc1'' = Some (PyTensor 70)
   \<and> map_of example_checkpoint ''state_dict''
       = Some (PyStateDict [(''module.conv1.weight'', 1), (''module.fc.bias'', 2)])
   \<and> params (model example_world) = [(''conv1.weight'', 0), (''fc.bias'', 0)]
   \<and> distinct (map fst [(''module.conv1.weight'', 1 :: real), (''module.fc.bias'', 2)])
   \<and> str_contains ''module.'' ''module.conv1.weight''
   \<and> \<not> str_contains ''module.'' ''conv1.weight''
   \<and> clash_free (map fst [(''module.conv1.weight'', 1 :: real), (''module.fc.bias'', 2)])
   \<and> calls (snd (load_checkpoint
        \<lparr>arch = ''resnet18'', resume = ''ckpt.pth.tar'', gpu = None, quant = True,
           deploy = False, evaluate = True\<rparr> example_world))
       = [Call_load_state_dict [(''conv1.weight'', 1), (''fc.bias'', 2)]]
   \<and> params (model (snd (load_checkpoint
        \<lparr>arch = ''resnet18'', resume = ''ckpt.pth.tar'', gpu = None, quant = True,
           deploy = False, evaluate = True\<rparr> example_world)))
       = [(''conv1.weight'', 1), (''fc.bias'', 2)]
   \<and> calls (snd (load_checkpoint
        \<lparr>arch = ''resnet18'', resume = ''ckpt.pth.tar'', gpu = None, quant = True,
           deploy = False, evaluate = True\<rparr>
        (example_world\<lparr>fsys := \<lparr>dirs = {}, files = [''ckpt.pth.tar'' \<mapsto> PthFile
            [(''epoch'', PyInt 3), (''best_acc1'', PyTensor 70),
             (''state_dict'', PyStateDict [(''conv1.weight'', 1), (''fc.bias'', 2)]),
             (''optimizer'', PyObject 1)]]\<rparr>\<rparr>)))
       = [Call_load_state_dict [(''conv1.weight'', 1), (''fc.bias'', 2)]]"
proof -
  let ?a = "\<lparr>arch = ''resnet18'', resume = ''ckpt.pth.tar'', gpu = None, quant = True,
           deploy = False, evaluate = True\<rparr>"
  let ?sd = "[(''module.conv1.weight'', 1 :: real), (''module.fc.bias'', 2)]"
  let ?plain = "[(''conv1.weight'', 1 :: real), (''fc.bias'', 2)]"
  let ?ck = "[(''epoch'', PyInt 3), (''best_acc1'', PyTensor 70),
             (''state_dict'', PyStateDict ?plain), (''optimizer'', PyObject 1)]"
  let ?w = "example_world\<lparr>fsys := \<lparr>dirs = {}, files = [''ckpt.pth.tar'' \<mapsto> PthFile ?ck]\<rparr>\<rparr>"
  have f1: "files (fsys example_world) (resume ?a) = Some (PthFile example_checkpoint)"
    by (simp add: example_defs)
  have e1: "map_of example_checkpoint ''epoch'' = Some (PyInt 3)" by (simp add: example_defs)
  have b1: "map_of example_checkpoint ''best_acc1'' = Some (PyTensor 70)"
    by (simp add: example_defs)
  have g1: "gpu ?a \<noteq> None \<longrightarrow> (\<exists>t. PyTensor 70 = PyTensor t)" by simp
  have s1: "map_of example_checkpoint ''state_dict'' = Some (PyStateDict ?sd)"
    by (simp add: example_defs)
  have n1: "?sd \<noteq> []" and n2: "params (model example_world) \<noteq> []"
    and p: "params (model example_world) = [(''conv1.weight'', 0), (''fc.bias'', 0)]"
    by (simp_all add: example_defs)
  have d1: "distinct (map fst ?sd)" by simp
  have f2: "files (fsys ?w) (resume ?a) = Some (PthFile ?ck)" by simp
  have e2: "map_of ?ck ''epoch'' = Some (PyInt 3)" by simp
  have b2: "map_of ?ck ''best_acc1'' = Some (PyTensor 70)" by simp
  have s2: "map_of ?ck ''state_dict'' = Some (PyStateDict ?plain)" by simp
  have n3: "?plain \<noteq> []" and n4: "params (model ?w) \<noteq> []"
    by (simp_all add: example_defs)
  have d2: "distinct (map fst ?plain)" by simp
  have l1: "load_state_dict (model example_world) ?plain
            = Inr (example_model\<lparr>params := ?plain\<rparr>)"
    by (simp add: load_state_dict_def example_defs)
  from resume_renames_or_keeps_keys [OF f1 e1 b1 g1 s1 n1 n2 d1]
       resume_renames_or_keeps_keys [OF f2 e2 b2 g1 s2 n3 n4 d2]
       f1 e1 b1 s1 p l1
  show ?thesis by (simp add: example_defs)
qed

section \<open>Properties of the export\<close>

lemma join_in_dir:
  assumes "d \<noteq> []" "CHR ''/'' \<notin> set d"
  shows "os_path_join d (d @ sfx) = d @ ''/'' @ d @ sfx"
proof -
  obtain c cs where d: "d = c # cs" using assms(1) by (cases d) auto
  with assms(2) have "c \<noteq> CHR ''/''" by auto
  then have np: "\<not> prefix ''/'' (d @ sfx)" by (simp add: d)
  have "last d \<in> set d" using assms(1) by simp
  with assms(2) have "last d \<noteq> CHR ''/''" by metis
  with np assms(1) show ?thesis by (simp add: os_path_join_def)
qed

lemma str_replace_step:
  "\<not> prefix old (c # cs) \<Longrightarrow> old \<noteq> []
   \<Longrightarrow> str_replace (c # cs) old new = c # str_replace cs old new"
  by simp

lemma replace_sg_skip:
  assumes "\<not> str_contains ''.sg'' s" "h \<noteq> CHR ''s''" "h \<noteq> CHR ''g''"
  shows "str_replace (s @ h # t) ''.sg'' new = s @ str_replace (h # t) ''.sg'' new"
  using assms(1)
proof (induction s)
  case Nil
  show ?case by simp
next
  case (Cons c s)
  from Cons.prems have np: "\<not> prefix ''.sg'' (c # s)" and nc: "\<not> str_contains ''.sg'' s"
    by auto
  have "\<not> prefix ''.sg'' (c # s @ h # t)"
  proof (cases s)
    case Nil
    then show ?thesis using assms(2) by simp
  next
    case (Cons x s')
    note sx = this
    show ?thesis
    proof (cases s')
      case Nil
      then show ?thesis using sx assms(3) by simp
    next
      case (Cons y s'')
      then show ?thesis using sx np by simp
    qed
  qed
  then have "str_replace (c # s @ h # t) ''.sg'' new = c # str_replace (s @ h # t) ''.sg'' new"
    by (rule str_replace_step) simp
  with Cons.IH [OF nc] show ?case by (simp del: str_replace.simps)
qed

lemma replace_sg_path:
  assumes "\<not> str_contains ''.sg'' d"
  shows "str_replace (d @ ''/'' @ d @ ''.sg'') ''.sg'' ''_8bit.sg'' = d @ ''/'' @ d @ ''_8bit.sg''"
proof -
  have "str_replace (d @ CHR ''/'' # (d @ ''.sg'')) ''.sg'' ''_8bit.sg''
        = d @ str_replace (CHR ''/'' # (d @ ''.sg'')) ''.sg'' ''_8bit.sg''"
    by (rule replace_sg_skip [OF assms]) simp_all
  also have "str_replace (CHR ''/'' # (d @ ''.sg'')) ''.sg'' ''_8bit.sg''
        = CHR ''/'' # str_replace (d @ ''.sg'') ''.sg'' ''_8bit.sg''"
    by simp
  also have "str_replace (d @ CHR ''.'' # ''sg'') ''.sg'' ''_8bit.sg''
        = d @ str_replace (CHR ''.'' # ''sg'') ''.sg'' ''_8bit.sg''"
    by (rule replace_sg_skip [OF assms]) simp_all
  also have "str_replace (CHR ''.'' # ''sg'') ''.sg'' ''_8bit.sg'' = ''_8bit.sg''"
    by simp
  finally show ?thesis by simp
qed

lemma deploy_export_files:
  assumes ok: "arch a \<noteq> []" "CHR ''/'' \<notin> set (arch a)" "\<not> str_contains ''.sg'' (arch a)"
    and gen: "gen_sg_from_pytorch rb
                (model_eval ((convert_merge_bn (model_eval (model w)))\<lparr>on_cpu := True\<rparr>))
              = Inr (sg, Some clips)"
  shows "files (fsys (snd (deploy_export rb a w))) (arch a @ ''/'' @ arch a @ ''.sg'')
           = Some (SgFile sg)
     \<and> files (fsys (snd (deploy_export rb a w))) (arch a @ ''/'' @ arch a @ ''_act_clip.json'')
           = Some (JsonFile clips)
     \<and> (\<forall>p. p \<noteq> arch a @ ''/'' @ arch a @ ''.sg''
            \<and> p \<noteq> arch a @ ''/'' @ arch a @ ''_act_clip.json''
            \<and> p \<noteq> arch a @ ''/'' @ arch a @ ''_8bit.sg''
            \<longrightarrow> files (fsys (snd (deploy_export rb a w))) p = files (fsys w) p)
     \<and> (\<forall>qsg. gen_quant_sg_from_clip_ranges rb sg clips qconfig = Inr qsg
            \<longrightarrow> fst (deploy_export rb a w) = Inr ()
              \<and> files (fsys (snd (deploy_export rb a w))) (arch a @ ''/'' @ arch a @ ''_8bit.sg'')
                  = Some (SgFile qsg))
     \<and> (\<forall>e. gen_quant_sg_from_clip_ranges rb sg clips qconfig = Inl e
            \<longrightarrow> fst (deploy_export rb a w) = Inl e
              \<and> files (fsys (snd (deploy_export rb a w))) (arch a @ ''/'' @ arch a @ ''_8bit.sg'')
                  = files (fsys w) (arch a @ ''/'' @ arch a @ ''_8bit.sg''))"
proof -
  define psg where "psg = os_path_join (arch a) (arch a @ ''.sg'')"
  define pclip where "pclip = os_path_join (arch a) (arch a @ ''_act_clip.json'')"
  define p8 where "p8 = arch a @ ''/'' @ arch a @ ''_8bit.sg''"
  have psg_v: "psg = arch a @ ''/'' @ arch a @ ''.sg''"
    unfolding psg_def by (rule join_in_dir [OF ok(1,2)])
  have pclip_v: "pclip = arch a @ ''/'' @ arch a @ ''_act_clip.json''"
    unfolding pclip_def by (rule join_in_dir [OF ok(1,2)])
  have p8_eq: "str_replace psg ''.sg'' ''_8bit.sg'' = p8"
    unfolding psg_v p8_def by (rule replace_sg_path [OF ok(3)])
  have ne: "psg \<noteq> pclip" "psg \<noteq> p8" "pclip \<noteq> p8"
    by (simp_all add: psg_v pclip_v p8_def)
  have "files (fsys (snd (deploy_export rb a w))) psg = Some (SgFile sg)
     \<and> files (fsys (snd (deploy_export rb a w))) pclip = Some (JsonFile clips)
     \<and> (\<forall>p. p \<noteq> psg \<and> p \<noteq> pclip \<and> p \<noteq> p8
            \<longrightarrow> files (fsys (snd (deploy_export rb a w))) p = files (fsys w) p)
     \<and> (\<forall>qsg. gen_quant_sg_from_clip_ranges rb sg clips qconfig = Inr qsg
            \<longrightarrow> fst (deploy_export rb a w) = Inr ()
              \<and> files (fsys (snd (deploy_export rb a w))) p8 = Some (SgFile qsg))
     \<and> (\<forall>e. gen_quant_sg_from_clip_ranges rb sg clips qconfig = Inl e
            \<longrightarrow> fst (deploy_export rb a w) = Inl e
              \<and> files (fsys (snd (deploy_export rb a w))) p8 = files (fsys w) p8)"
    unfolding deploy_export_def Let_def psg_def [symmetric] pclip_def [symmetric]
    using gen ne p8_eq
    by (auto simp: read_json_def save_sg_def write_file_def split: sum.splits)
  then show ?thesis unfolding psg_v pclip_v p8_def .
qed

lemma stage_fsys: "fsys (snd (resume_or_calibrate ld a w)) = fsys w"
  using load_checkpoint_frame [of a w] by (simp add: resume_or_calibrate_def)

lemma main_worker_deploy_status:
  assumes "resume_or_calibrate ld a w = (Inr u, w1)" "quant a" "deploy a"
  shows "fst (main_worker rb ld a w)
         = (case fst (deploy_export rb a
                  (w1\<lparr>model := enable_quantization (model w1),
                      calls := calls w1 @ [Call_enable_quantization (model w1)]\<rparr>)) of
              Inl e \<Rightarrow> Inl e | Inr _ \<Rightarrow> Inr Deployed)"
  using assms by (simp add: main_worker_def Let_def split: prod.splits sum.splits)

text \<open>
  C6: with quantization on and deploy asked for, for an architecture name that is not
  empty, has no \<^verbatim>\<open>/\<close> and does not contain \<^verbatim>\<open>.sg\<close> (the names \<^verbatim>\<open>--arch\<close> accepts are
  Python identifiers), when the stage before has not raised and the two calls of the
  external compiler return: the run ends as deployed; the directory named after the
  architecture holds \<^verbatim>\<open><arch>.sg\<close> with the generated graph, \<^verbatim>\<open><arch>_act_clip.json\<close> with
  the clip ranges, which read back from it as JSON, and \<^verbatim>\<open><arch>_8bit.sg\<close> with the graph
  derived from that graph, those clip ranges and the quantization options; every other
  file is as it was.
\<close>

theorem deploy_artifacts:
  assumes q: "quant a" and d: "deploy a"
    and ok: "arch a \<noteq> []" "CHR ''/'' \<notin> set (arch a)" "\<not> str_contains ''.sg'' (arch a)"
    and st: "fst (resume_or_calibrate ld a w) = Inr ()"
    and gen: "gen_sg_from_pytorch rb
                (model_eval ((convert_merge_bn (model_eval (enable_quantization
                   (model (snd (resume_or_calibrate ld a w))))))\<lparr>on_cpu := True\<rparr>))
              = Inr (sg, Some clips)"
    and qs: "gen_quant_sg_from_clip_ranges rb sg clips qconfig = Inr qsg"
  shows "fst (main_worker rb ld a w) = Inr Deployed
     \<and> files (fsys (snd (main_worker rb ld a w))) (arch a @ ''/'' @ arch a @ ''.sg'')
         = Some (SgFile sg)
     \<and> files (fsys (snd (main_worker rb ld a w))) (arch a @ ''/'' @ arch a @ ''_act_clip.json'')
         = Some (JsonFile clips)
     \<and> read_json (fsys (snd (main_worker rb ld a w)))
           (arch a @ ''/'' @ arch a @ ''_act_clip.json'') = Inr clips
     \<and> files (fsys (snd (main_worker rb ld a w))) (arch a @ ''/'' @ arch a @ ''_8bit.sg'')
         = Some (SgFile qsg)
     \<and> (\<forall>p. p \<noteq> arch a @ ''/'' @ arch a @ ''.sg''
            \<and> p \<noteq> arch a @ ''/'' @ arch a @ ''_act_clip.json''
            \<and> p \<noteq> arch a @ ''/'' @ arch a @ ''_8bit.sg''
            \<longrightarrow> files (fsys (snd (main_worker rb ld a w))) p = files (fsys w) p)"
proof -
  obtain w1 where s1: "resume_or_calibrate ld a w = (Inr (), w1)"
    using st by (cases "resume_or_calibrate ld a w") auto
  define w2 where "w2 = w1\<lparr>model := enable_quantization (model w1),
                          calls := calls w1 @ [Call_enable_quantization (model w1)]\<rparr>"
  have f2: "fsys w2 = fsys w" using stage_fsys [of ld a w] s1 by (simp add: w2_def)
  have g2: "gen_sg_from_pytorch rb
              (model_eval ((convert_merge_bn (model_eval (model w2)))\<lparr>on_cpu := True\<rparr>))
            = Inr (sg, Some clips)"
    using gen s1 by (simp add: w2_def)
  have world: "snd (main_worker rb ld a w) = snd (deploy_export rb a w2)"
    unfolding w2_def by (rule main_worker_deploy_world [OF s1 q d])
  have status: "fst (main_worker rb ld a w)
      = (case fst (deploy_export rb a w2) of Inl e \<Rightarrow> Inl e | Inr _ \<Rightarrow> Inr Deployed)"
    unfolding w2_def by (rule main_worker_deploy_status [OF s1 q d])
  from deploy_export_files [OF ok g2] qs show ?thesis
    by (simp add: world status f2 read_json_def)
qed

theorem deploy_artifacts_witness:
  "arch \<lparr>arch = ''resnet18'', resume = [], gpu = None, quant = True, deploy = True, evaluate = False\<rparr> \<noteq> []
   \<and> CHR ''/'' \<notin> set ''resnet18''
   \<and> \<not> str_contains ''.sg'' ''resnet18''
   \<and> fst (resume_or_calibrate example_loaders
        \<lparr>arch = ''resnet18'', resume = [], gpu = None, quant = True, deploy = True, evaluate = False\<rparr>
        example_world) = Inr ()
   \<and> fst (main_worker example_rb example_loaders
        \<lparr>arch = ''resnet18'', resume = [], gpu = None, quant = True, deploy = True, evaluate = False\<rparr>
        example_world) = Inr Deployed
   \<and> files (fsys (snd (main_worker example_rb example_loaders
        \<lparr>arch = ''resnet18'', resume = [], gpu = None, quant = True, deploy = True, evaluate = False\<rparr>
        example_world))) ''resnet18/resnet18.sg'' = Some (SgFile (SGraph 0))
   \<and> files (fsys (snd (main_worker example_rb example_loaders
        \<lparr>arch = ''resnet18'', resume = [], gpu = None, quant = True, deploy = True, evaluate = False\<rparr>
        example_world))) ''resnet18/resnet18_act_clip.json'' = Some (JsonFile [(''conv1'', 0, 6)])
   \<and> files (fsys (snd (main_worker example_rb example_loaders
        \<lparr>arch = ''resnet18'', resume = [], gpu = None, quant = True, deploy = True, evaluate = False\<rparr>
        example_world))) ''resnet18/resnet18_8bit.sg'' = Some (SgFile (SGraph 1))"
proof -
  let ?a = "\<lparr>arch = ''resnet18'', resume = [], gpu = None, quant = True, deploy = True, evaluate = False\<rparr>"
  have q: "quant ?a" and d: "deploy ?a" by simp_all
  have ok1: "arch ?a \<noteq> []" and ok2: "CHR ''/'' \<notin> set (arch ?a)"
    and ok3: "\<not> str_contains ''.sg'' (arch ?a)" by simp_all
  have st: "fst (resume_or_calibrate example_loaders ?a example_world) = Inr ()"
    by (simp add: resume_or_calibrate_def)
  have gen: "gen_sg_from_pytorch example_rb
                (model_eval ((convert_merge_bn (model_eval (enable_quantization
                   (model (snd (resume_or_calibrate example_loaders ?a example_world))))))
                     \<lparr>on_cpu := True\<rparr>))
              = Inr (SGraph 0, Some [(''conv1'', 0, 6)])"
    by (simp add: example_rb_def)
  have qs: "gen_quant_sg_from_clip_ranges example_rb (SGraph 0) [(''conv1'', 0, 6)] qconfig
            = Inr (SGraph 1)"
    by (simp add: example_rb_def)
  from deploy_artifacts [OF q d ok1 ok2 ok3 st gen qs] st show ?thesis by simp
qed

text \<open>
  C7 as stated fails: in a run where the derivation of the quantized graph raises, the
  file \<^verbatim>\<open><arch>.sg\<close>, absent before, is at its final path when the run ends with the
  exception.
\<close>

theorem partial_export_counterexample:
  "fst (main_worker failing_rb example_loaders
        \<lparr>arch = ''resnet18'', resume = [], gpu = None, quant = True, deploy = True, evaluate = False\<rparr>
        example_world) = Inl RuntimeError
   \<and> files (fsys example_world) ''resnet18/resnet18.sg'' = None
   \<and> files (fsys (snd (main_worker failing_rb example_loaders
        \<lparr>arch = ''resnet18'', resume = [], gpu = None, quant = True, deploy = True, evaluate = False\<rparr>
        example_world))) ''resnet18/resnet18.sg'' = Some (SgFile (SGraph 0))"
  by (simp add: driver_defs example_defs Let_def)

text \<open>
  C7, as amended: with quantization on and deploy asked for, for an architecture name
  that is not empty, has no \<^verbatim>\<open>/\<close> and does not contain \<^verbatim>\<open>.sg\<close>, when the stage before has
  not raised, the graph and the clip ranges have been produced and the derivation of the
  quantized graph raises, the run ends with that exception and \<^verbatim>\<open><arch>.sg\<close>, which
  \<^verbatim>\<open>save_sg\<close> has written at its final output path, is left there with the generated
  graph.
\<close>

theorem failed_export_leaves_graph:
  assumes q: "quant a" and d: "deploy a"
    and ok: "arch a \<noteq> []" "CHR ''/'' \<notin> set (arch a)" "\<not> str_contains ''.sg'' (arch a)"
    and st: "fst (resume_or_calibrate ld a w) = Inr ()"
    and gen: "gen_sg_from_pytorch rb
                (model_eval ((convert_merge_bn (model_eval (enable_quantization
                   (model (snd (resume_or_calibrate ld a w))))))\<lparr>on_cpu := True\<rparr>))
              = Inr (sg, Some clips)"
    and qs: "gen_quant_sg_from_clip_ranges rb sg clips qconfig = Inl e"
  shows "fst (main_worker rb ld a w) = Inl e
     \<and> files (fsys (snd (main_worker rb ld a w))) (arch a @ ''/'' @ arch a @ ''.sg'')
         = Some (SgFile sg)"
proof -
  obtain w1 where s1: "resume_or_calibrate ld a w = (Inr (), w1)"
    using st by (cases "resume_or_calibrate ld a w") auto
  define w2 where "w2 = w1\<lparr>model := enable_quantization (model w1),
                          calls := calls w1 @ [Call_enable_quantization (model w1)]\<rparr>"
  have g2: "gen_sg_from_pytorch rb
              (model_eval ((convert_merge_bn (model_eval (model w2)))\<lparr>on_cpu := True\<rparr>))
            = Inr (sg, Some clips)"
    using gen s1 by (simp add: w2_def)
  have world: "snd (main_worker rb ld a w) = snd (deploy_export rb a w2)"
    unfolding w2_def by (rule main_worker_deploy_world [OF s1 q d])
  have status: "fst (main_worker rb ld a w)
      = (case fst (deploy_export rb a w2) of Inl e \<Rightarrow> Inl e | Inr _ \<Rightarrow> Inr Deployed)"
    unfolding w2_def by (rule main_worker_deploy_status [OF s1 q d])
  from deploy_export_files [OF ok g2] qs show ?thesis
    by (auto simp: world status)
qed

theorem failed_export_leaves_graph_witness:
  "arch \<lparr>arch = ''resnet18'', resume = [], gpu = None, quant = True, deploy = True,
          evaluate = False\<rparr> \<noteq> []
   \<and> CHR ''/'' \<notin> set ''resnet18''
   \<and> \<not> str_contains ''.sg'' ''resnet18''
   \<and> fst (resume_or_calibrate example_loaders
        \<lparr>arch = ''resnet18'', resume = [], gpu = None, quant = True, deploy = True,
           evaluate = False\<rparr> example_world) = Inr ()
   \<and> gen_quant_sg_from_clip_ranges failing_rb (SGraph 0) [(''conv1'', 0, 6)] qconfig
        = Inl RuntimeError
   \<and> fst (main_worker failing_rb example_loaders
        \<lparr>arch = ''resnet18'', resume = [], gpu = None, quant = True, deploy = True,
           evaluate = False\<rparr> example_world) = Inl RuntimeError
   \<and> files (fsys (snd (main_worker failing_rb example_loaders
        \<lparr>arch = ''resnet18'', resume = [], gpu = None, quant = True, deploy = True,
           evaluate = False\<rparr> example_world))) ''resnet18/resnet18.sg''
        = Some (SgFile (SGraph 0))"
proof -
  let ?a = "\<lparr>arch = ''resnet18'', resume = [], gpu = None, quant = True, deploy = True,
           evaluate = False\<rparr>"
  have q: "quant ?a" and d: "deploy ?a" by simp_all
  have ok1: "arch ?a \<noteq> []" and ok2: "CHR ''/'' \<notin> set (arch ?a)"
    and ok3: "\<not> str_contains ''.sg'' (arch ?a)" by simp_all
  have st: "fst (resume_or_calibrate example_loaders ?a example_world) = Inr ()"
    by (simp add: resume_or_calibrate_def)
  have gen: "gen_sg_from_pytorch failing_rb
                (model_eval ((convert_merge_bn (model_eval (enable_quantization
                   (model (snd (resume_or_calibrate example_loaders ?a example_world))))))
                     \<lparr>on_cpu := True\<rparr>))
              = Inr (SGraph 0, Some [(''conv1'', 0, 6)])"
    by (simp add: failing_rb_def)
  have qs: "gen_quant_sg_from_clip_ranges failing_rb (SGraph 0) [(''conv1'', 0, 6)] qconfig
            = Inl RuntimeError"
    by (simp add: failing_rb_def)
  from failed_export_leaves_graph [OF q d ok1 ok2 ok3 st gen qs] st qs
  show ?thesis by simp
qed

end
